theory Spec2Isabelle
  imports Complex_Main "HOL-Library.Sublist" "HOL-Library.Multiset"
begin

section \<open>Environment monitoring: data model\<close>

text \<open>
  The embedding follows \<^verbatim>\<open>app/environment/queries.py\<close>, \<^verbatim>\<open>app/environment/api.py\<close>,
  \<^verbatim>\<open>app/environment/models.py\<close> and \<^verbatim>\<open>app/environment/schemas.py\<close>.

  Conventions.
  \<^item> A Python \<^verbatim>\<open>datetime\<close> is the number of microseconds since a fixed midnight, an
    \<open>int\<close>; a \<^verbatim>\<open>timedelta\<close> is a difference of two such numbers. \<^verbatim>\<open>timedelta.days\<close> is
    the floor of the difference divided by one day (a \<^verbatim>\<open>timedelta\<close> is normalised so that
    only \<^verbatim>\<open>days\<close> carries the sign), which is \<open>div\<close> on \<open>int\<close>.
  \<^item> Every \<^verbatim>\<open>datetime.now()\<close> of one call is the single instant \<open>now\<close> passed to the
    function.
  \<^item> A Python \<^verbatim>\<open>str\<close> is a \<open>string\<close> holding its UTF-8 bytes; the Chinese literals of
    the source are spelled out byte by byte. UTF-8 is injective and self-synchronising,
    so equality and containment of texts are equality and containment of byte lists.
  \<^item> A nullable column is an \<open>option\<close>.
  \<^item> A table is the list of its rows in storage order; \<^verbatim>\<open>db.get\<close> is the lookup of the
    row with the given primary key.
  \<^item> The store enforces what \<^verbatim>\<open>models.py\<close> declares. An insert fails with
    \<open>IntegrityError\<close> when the primary key of the row is present, or when a foreign key
    of the row (\<^verbatim>\<open>ForeignKey(...), nullable=False\<close>) names a row that is absent. A float
    that is not finite cannot be stored in a \<^verbatim>\<open>Float\<close> column of SQL Server, the only
    engine that \<^verbatim>\<open>db.py\<close> connects to: the driver refuses the statement
    (\<open>DBAPIError\<close>). A failed insert leaves the store as it was: the commit is the only
    point at which a call changes the store, so one call is one transaction. The
    widths of the text columns are not modelled.
\<close>

type_synonym datetime = int

definition DAY :: int where
  "DAY = 86400000000"

definition timedelta_days :: "int \<Rightarrow> int" where
  "timedelta_days delta = delta div DAY"

definition timedelta :: "int \<Rightarrow> int" where
  "timedelta days = days * DAY"

subsection \<open>Floats\<close>

text \<open>
  A Python \<^verbatim>\<open>float\<close>: a finite binary64 value is denoted by the rational it equals
  (\<open>-0.0\<close> and \<open>0.0\<close> compare equal and are both \<open>Fin 0\<close>). Comparisons with
  \<^verbatim>\<open>nan\<close> are false.
\<close>

datatype pyfloat = Fin rat | PosInf | NegInf | NaN

fun float_lt :: "pyfloat \<Rightarrow> pyfloat \<Rightarrow> bool" where
  "float_lt NaN _ = False"
| "float_lt _ NaN = False"
| "float_lt (Fin a) (Fin b) = (a < b)"
| "float_lt (Fin a) PosInf = True"
| "float_lt (Fin a) NegInf = False"
| "float_lt PosInf _ = False"
| "float_lt NegInf NegInf = False"
| "float_lt NegInf _ = True"

definition float_gt :: "pyfloat \<Rightarrow> pyfloat \<Rightarrow> bool" where
  "float_gt a b = float_lt b a"

definition is_finite :: "pyfloat \<Rightarrow> bool" where
  "is_finite x = (case x of Fin q \<Rightarrow> True | PosInf \<Rightarrow> False | NegInf \<Rightarrow> False | NaN \<Rightarrow> False)"

subsection \<open>String literals of the source\<close>

text \<open>\<^verbatim>\<open>"U+79BB U+7EBF"\<close> (offline).\<close>
definition OFFLINE :: string where
  "OFFLINE = [CHR 0xE7, CHR 0xA6, CHR 0xBB, CHR 0xE7, CHR 0xBA, CHR 0xBF]"

text \<open>\<^verbatim>\<open>"U+6B63 U+5E38"\<close> (normal).\<close>
definition NORMAL :: string where
  "NORMAL = [CHR 0xE6, CHR 0xAD, CHR 0xA3, CHR 0xE5, CHR 0xB8, CHR 0xB8]"

text \<open>\<^verbatim>\<open>"U+76D1 U+6D4B U+503C"\<close> (monitored value).\<close>
definition REASON_HEAD :: string where
  "REASON_HEAD = [CHR 0xE7, CHR 0x9B, CHR 0x91, CHR 0xE6, CHR 0xB5, CHR 0x8B, CHR 0xE5, CHR 0x80,
     CHR 0xBC]"

text \<open>\<^verbatim>\<open>"U+8D85 U+8FC7 U+4E0A U+9650 U+9608 U+503C"\<close> (exceeds the upper
  threshold).\<close>
definition REASON_UPPER :: string where
  "REASON_UPPER = [CHR 0xE8, CHR 0xB6, CHR 0x85, CHR 0xE8, CHR 0xBF, CHR 0x87, CHR 0xE4, CHR 0xB8,
     CHR 0x8A, CHR 0xE9, CHR 0x99, CHR 0x90, CHR 0xE9, CHR 0x98, CHR 0x88, CHR 0xE5, CHR 0x80,
     CHR 0xBC]"

text \<open>\<^verbatim>\<open>"U+4F4E U+4E8E U+4E0B U+9650 U+9608 U+503C"\<close> (is below the lower
  threshold).\<close>
definition REASON_LOWER :: string where
  "REASON_LOWER = [CHR 0xE4, CHR 0xBD, CHR 0x8E, CHR 0xE4, CHR 0xBA, CHR 0x8E, CHR 0xE4, CHR 0xB8,
     CHR 0x8B, CHR 0xE9, CHR 0x99, CHR 0x90, CHR 0xE9, CHR 0x98, CHR 0x88, CHR 0xE5, CHR 0x80,
     CHR 0xBC]"

text \<open>\<^verbatim>\<open>"U+672A U+5BA1 U+6838"\<close> (unaudited), the column default of
  \<^verbatim>\<open>audit_status\<close>.\<close>
definition UNAUDITED :: string where
  "UNAUDITED = [CHR 0xE6, CHR 0x9C, CHR 0xAA, CHR 0xE5, CHR 0xAE, CHR 0xA1, CHR 0xE6, CHR 0xA0,
     CHR 0xB8]"

text \<open>\<^verbatim>\<open>"U+5DF2 U+5BA1 U+6838"\<close> (audited).\<close>
definition AUDITED :: string where
  "AUDITED = [CHR 0xE5, CHR 0xB7, CHR 0xB2, CHR 0xE5, CHR 0xAE, CHR 0xA1, CHR 0xE6, CHR 0xA0,
     CHR 0xB8]"

text \<open>\<^verbatim>\<open>"U+4F18"\<close> (excellent) and \<^verbatim>\<open>"U+826F"\<close> (good).\<close>
definition QUALITY_EXCELLENT :: string where
  "QUALITY_EXCELLENT = [CHR 0xE4, CHR 0xBC, CHR 0x98]"

definition QUALITY_GOOD :: string where
  "QUALITY_GOOD = [CHR 0xE8, CHR 0x89, CHR 0xAF]"

text \<open>\<^verbatim>\<open>"U+4E2D"\<close> (fair), the default grade of \<^verbatim>\<open>EnvironmentDataBase\<close>.\<close>
definition QUALITY_FAIR :: string where
  "QUALITY_FAIR = [CHR 0xE4, CHR 0xB8, CHR 0xAD]"

text \<open>\<^verbatim>\<open>"U+6838 U+5FC3 U+4FDD U+62A4 U+533A"\<close> (core protection area).\<close>
definition CORE_PROTECTION :: string where
  "CORE_PROTECTION = [CHR 0xE6, CHR 0xA0, CHR 0xB8, CHR 0xE5, CHR 0xBF, CHR 0x83, CHR 0xE4, CHR 0xBF,
     CHR 0x9D, CHR 0xE6, CHR 0x8A, CHR 0xA4, CHR 0xE5, CHR 0x8C, CHR 0xBA]"

text \<open>\<^verbatim>\<open>"U+516C U+56ED U+7BA1 U+7406 U+4EBA U+5458"\<close> (park manager) and
  \<^verbatim>\<open>"U+7CFB U+7EDF U+7BA1 U+7406 U+5458"\<close> (system administrator).\<close>
definition ROLE_PARK_MANAGER :: string where
  "ROLE_PARK_MANAGER = [CHR 0xE5, CHR 0x85, CHR 0xAC, CHR 0xE5, CHR 0x9B, CHR 0xAD, CHR 0xE7,
     CHR 0xAE, CHR 0xA1, CHR 0xE7, CHR 0x90, CHR 0x86, CHR 0xE4, CHR 0xBA, CHR 0xBA, CHR 0xE5,
     CHR 0x91, CHR 0x98]"

definition ROLE_SYS_ADMIN :: string where
  "ROLE_SYS_ADMIN = [CHR 0xE7, CHR 0xB3, CHR 0xBB, CHR 0xE7, CHR 0xBB, CHR 0x9F, CHR 0xE7, CHR 0xAE,
     CHR 0xA1, CHR 0xE7, CHR 0x90, CHR 0x86, CHR 0xE5, CHR 0x91, CHR 0x98]"

subsection \<open>Tables\<close>

text \<open>
  The class names of \<^verbatim>\<open>models.py\<close> are Chinese; the records carry English ones.
  The indicator table (first class of \<^verbatim>\<open>models.py\<close>).
\<close>

record monitor_index =
  index_id :: string
  index_name :: string
  unit :: string
  upper_threshold :: pyfloat
  lower_threshold :: pyfloat
  monitor_frequency :: string
  idx_created_at :: "datetime option"
  idx_updated_at :: "datetime option"

text \<open>
  Modelled from the spec: the device table, a class of \<^verbatim>\<open>app.shared.models\<close> that is
  not among the sources. Its columns are the attributes that
  \<^verbatim>\<open>create_monitor_device\<close> writes (section 3 of the specification lists the same
  ones), nullable where the response schema \<^verbatim>\<open>MonitorDevice\<close> has an \<^verbatim>\<open>Optional\<close>.
\<close>

record monitor_device =
  dev_id :: int
  dev_type :: string
  deployment_area_id :: "int option"
  install_time :: "datetime option"
  calibration_cycle :: "int option"
  last_calibration_time :: "datetime option"
  status :: "string option"
  communication_protocol :: "string option"
  latitude :: "pyfloat option"
  longitude :: "pyfloat option"
  dev_created_at :: "datetime option"
  dev_updated_at :: "datetime option"

text \<open>
  Modelled from the spec: the area table, a class of \<^verbatim>\<open>app.shared.models\<close> that is not
  among the sources. The queries read its \<^verbatim>\<open>id\<close>, its \<^verbatim>\<open>name\<close> and its
  \<^verbatim>\<open>type\<close>, the area category.
\<close>

record area =
  area_id :: int
  area_name :: string
  area_type :: string

text \<open>The reading table (second class of \<^verbatim>\<open>models.py\<close>).\<close>

record environment_data =
  data_id :: string
  data_index_id :: string
  data_device_id :: int
  collect_time :: datetime
  monitor_value :: pyfloat
  data_area_id :: int
  data_quality :: string
  is_abnormal :: int
  abnormal_reason :: "string option"
  audit_status :: string
  data_created_at :: "datetime option"
  data_updated_at :: "datetime option"

text \<open>The calibration record table (third class of \<^verbatim>\<open>models.py\<close>).\<close>

record calibration_record =
  record_id :: string
  rec_device_id :: int
  calibration_time :: datetime
  calibrator_id :: int
  calibration_result :: string
  calibration_desc :: "string option"
  rec_created_at :: "datetime option"
  rec_updated_at :: "datetime option"

text \<open>
  Modelled from the spec: the principal, class \<^verbatim>\<open>User\<close> of \<^verbatim>\<open>app.core.models\<close>, which
  is not among the sources. The endpoints read its \<^verbatim>\<open>role_type\<close>; its \<^verbatim>\<open>id\<close> is the
  target of the foreign key \<^verbatim>\<open>calibrator_id\<close> of the calibration record table.
\<close>

record user =
  user_id :: int
  role_type :: string

record database =
  indices :: "monitor_index list"
  devices :: "monitor_device list"
  areas :: "area list"
  users :: "user list"
  readings :: "environment_data list"
  calibrations :: "calibration_record list"

text \<open>
  \<open>HTTPException\<close> carries the status code that an endpoint raises. The other two are
  the errors of a commit, which no endpoint catches.
\<close>

datatype error = HTTPException nat | IntegrityError | DBAPIError

text \<open>\<^verbatim>\<open>db.get(Table, key)\<close>: the row with that primary key, if any.\<close>

definition db_get :: "('r \<Rightarrow> 'k) \<Rightarrow> 'r list \<Rightarrow> 'k \<Rightarrow> 'r option" where
  "db_get pk rows k = find (\<lambda>r. pk r = k) rows"

text \<open>The \<^verbatim>\<open>UPDATE\<close> that a commit issues for a loaded row that was assigned to.\<close>

definition db_update :: "('r \<Rightarrow> 'k) \<Rightarrow> 'r list \<Rightarrow> 'k \<Rightarrow> 'r \<Rightarrow> 'r list" where
  "db_update pk rows k r' = map (\<lambda>r. if pk r = k then r' else r) rows"

section \<open>Device registry and calibration scheduler\<close>

definition get_monitor_device :: "database \<Rightarrow> int \<Rightarrow> monitor_device option" where
  "get_monitor_device db device_id = db_get dev_id (devices db) device_id"

text \<open>
  Python's \<^verbatim>\<open>device.calibration_cycle or 30\<close>: \<^verbatim>\<open>None\<close> and \<^verbatim>\<open>0\<close> are falsy.
\<close>

definition cycle_or_30 :: "int option \<Rightarrow> int" where
  "cycle_or_30 c = (case c of None \<Rightarrow> 30 | Some n \<Rightarrow> (if n = 0 then 30 else n))"

text \<open>The body of the loop of \<^verbatim>\<open>get_devices_needing_calibration\<close>.\<close>

definition needs_calibration :: "datetime \<Rightarrow> monitor_device \<Rightarrow> bool" where
  "needs_calibration now device =
     (case last_calibration_time device of
        None \<Rightarrow> True
      | Some t \<Rightarrow>
          (let days_since = timedelta_days (now - t)
           in days_since \<ge> cycle_or_30 (calibration_cycle device)))"

text \<open>
  The SQL condition \<^verbatim>\<open>status != OFFLINE\<close>: a comparison with \<^verbatim>\<open>NULL\<close> is
  not true, so a row whose status is \<^verbatim>\<open>NULL\<close> is not selected.
\<close>

definition status_not_offline :: "monitor_device \<Rightarrow> bool" where
  "status_not_offline device =
     (case status device of None \<Rightarrow> False | Some s \<Rightarrow> s \<noteq> OFFLINE)"

definition get_devices_needing_calibration :: "database \<Rightarrow> datetime \<Rightarrow> monitor_device list" where
  "get_devices_needing_calibration db now =
     (let all_devices = filter status_not_offline (devices db)
      in filter (needs_calibration now) all_devices)"

text \<open>
  The condition of the overdue-calibration report
  (\<^verbatim>\<open>get_overdue_calibration_devices_data\<close>), evaluated by the database:
  \<^verbatim>\<open>last_calibration_time IS NULL OR DATEDIFF(day, last_calibration_time, now) > calibration_cycle\<close>.
  \<^verbatim>\<open>DATEDIFF(day, a, b)\<close> counts the midnights between \<open>a\<close> and \<open>b\<close>, and a
  comparison with a \<^verbatim>\<open>NULL\<close> cycle is not true.
\<close>

definition datediff_day :: "datetime \<Rightarrow> datetime \<Rightarrow> int" where
  "datediff_day a b = b div DAY - a div DAY"

definition overdue_condition :: "datetime \<Rightarrow> monitor_device \<Rightarrow> bool" where
  "overdue_condition now device =
     (case last_calibration_time device of
        None \<Rightarrow> True
      | Some t \<Rightarrow>
          (case calibration_cycle device of
             None \<Rightarrow> False
           | Some c \<Rightarrow> datediff_day t now > c))"

section \<open>Callers and roles\<close>

definition require_roles :: "user \<Rightarrow> string list \<Rightarrow> error + unit" where
  "require_roles current_user allowed_roles =
     (if role_type current_user \<notin> set allowed_roles then Inl (HTTPException 403) else Inr ())"

definition MANAGERS :: "string list" where
  "MANAGERS = [ROLE_PARK_MANAGER, ROLE_SYS_ADMIN]"

section \<open>Indicator registry\<close>

text \<open>Schemas \<^verbatim>\<open>MonitorIndexCreate\<close> and \<^verbatim>\<open>MonitorIndexUpdate\<close>.\<close>

record monitor_index_create =
  mic_index_id :: string
  mic_index_name :: string
  mic_unit :: string
  mic_upper_threshold :: pyfloat
  mic_lower_threshold :: pyfloat
  mic_monitor_frequency :: string

text \<open>
  The dictionary \<^verbatim>\<open>payload.model_dump(exclude_unset=True)\<close> of a
  \<^verbatim>\<open>MonitorIndexUpdate\<close>: its keys are among the five fields of the schema; a key that
  is absent and a key whose value is \<^verbatim>\<open>None\<close> are both \<open>None\<close> here, since the loop of
  \<^verbatim>\<open>update_monitor_index\<close> skips the second and never sees the first.
\<close>

record monitor_index_update =
  upd_index_name :: "string option"
  upd_unit :: "string option"
  upd_upper_threshold :: "pyfloat option"
  upd_lower_threshold :: "pyfloat option"
  upd_monitor_frequency :: "string option"

definition get_monitor_index :: "database \<Rightarrow> string \<Rightarrow> monitor_index option" where
  "get_monitor_index db iid = db_get index_id (indices db) iid"

text \<open>
  \<^verbatim>\<open>db.add(db_index); db.commit()\<close> on the indicator table: two \<^verbatim>\<open>Float\<close> columns, a
  primary key, no foreign key.
\<close>

definition insert_monitor_index :: "database \<Rightarrow> monitor_index \<Rightarrow> error + database" where
  "insert_monitor_index db r =
     (if \<not> is_finite (upper_threshold r) \<or> \<not> is_finite (lower_threshold r) then Inl DBAPIError
      else if get_monitor_index db (index_id r) \<noteq> None then Inl IntegrityError
      else Inr (db\<lparr>indices := indices db @ [r]\<rparr>))"

definition create_monitor_index ::
  "database \<Rightarrow> datetime \<Rightarrow> monitor_index_create \<Rightarrow> error + database \<times> monitor_index" where
  "create_monitor_index db now index =
     (let db_index = \<lparr>index_id = mic_index_id index,
                      index_name = mic_index_name index,
                      unit = mic_unit index,
                      upper_threshold = mic_upper_threshold index,
                      lower_threshold = mic_lower_threshold index,
                      monitor_frequency = mic_monitor_frequency index,
                      idx_created_at = Some now,
                      idx_updated_at = Some now\<rparr>
      in case insert_monitor_index db db_index of
           Inl e \<Rightarrow> Inl e
         | Inr db' \<Rightarrow> Inr (db', db_index))"

text \<open>\<^verbatim>\<open>setattr(db_index, key, value)\<close> for each key whose value is not \<^verbatim>\<open>None\<close>.\<close>

definition apply_update :: "monitor_index \<Rightarrow> monitor_index_update \<Rightarrow> monitor_index" where
  "apply_update db_index update_data =
     (let r1 = (case upd_index_name update_data of
                  None \<Rightarrow> db_index | Some v \<Rightarrow> db_index\<lparr>index_name := v\<rparr>);
          r2 = (case upd_unit update_data of None \<Rightarrow> r1 | Some v \<Rightarrow> r1\<lparr>unit := v\<rparr>);
          r3 = (case upd_upper_threshold update_data of
                  None \<Rightarrow> r2 | Some v \<Rightarrow> r2\<lparr>upper_threshold := v\<rparr>);
          r4 = (case upd_lower_threshold update_data of
                  None \<Rightarrow> r3 | Some v \<Rightarrow> r3\<lparr>lower_threshold := v\<rparr>)
      in (case upd_monitor_frequency update_data of
            None \<Rightarrow> r4 | Some v \<Rightarrow> r4\<lparr>monitor_frequency := v\<rparr>))"

definition update_monitor_index ::
  "database \<Rightarrow> datetime \<Rightarrow> string \<Rightarrow> monitor_index_update \<Rightarrow> database \<times> monitor_index option"
  where
  "update_monitor_index db now iid update_data =
     (case get_monitor_index db iid of
        None \<Rightarrow> (db, None)
      | Some db_index \<Rightarrow>
          (let updated = (apply_update db_index update_data)\<lparr>idx_updated_at := Some now\<rparr>
           in (db\<lparr>indices := db_update index_id (indices db) iid updated\<rparr>, Some updated)))"

text \<open>Endpoint \<^verbatim>\<open>POST /monitor-indices\<close>.\<close>

definition api_create_monitor_index ::
  "database \<Rightarrow> datetime \<Rightarrow> user \<Rightarrow> monitor_index_create \<Rightarrow> error + database \<times> monitor_index"
  where
  "api_create_monitor_index db now current_user index =
     (case require_roles current_user MANAGERS of
        Inl e \<Rightarrow> Inl e
      | Inr _ \<Rightarrow>
          (case get_monitor_index db (mic_index_id index) of
             Some existing \<Rightarrow> Inl (HTTPException 400)
           | None \<Rightarrow> create_monitor_index db now index))"

text \<open>Endpoint \<^verbatim>\<open>PATCH /monitor-indices/{index_id}\<close>.\<close>

definition api_update_monitor_index ::
  "database \<Rightarrow> datetime \<Rightarrow> user \<Rightarrow> string \<Rightarrow> monitor_index_update
     \<Rightarrow> error + database \<times> monitor_index" where
  "api_update_monitor_index db now current_user iid payload =
     (case require_roles current_user MANAGERS of
        Inl e \<Rightarrow> Inl e
      | Inr _ \<Rightarrow>
          (case update_monitor_index db now iid payload of
             (db', None) \<Rightarrow> Inl (HTTPException 404)
           | (db', Some updated) \<Rightarrow> Inr (db', updated)))"

section \<open>Readings: anomaly detector and audit workflow\<close>

text \<open>Schema \<^verbatim>\<open>EnvironmentDataCreate\<close>.\<close>

record environment_data_create =
  edc_data_id :: "string option"
  edc_index_id :: string
  edc_device_id :: int
  edc_collect_time :: datetime
  edc_monitor_value :: pyfloat
  edc_area_id :: int
  edc_data_quality :: string

definition get_environment_data :: "database \<Rightarrow> string \<Rightarrow> environment_data option" where
  "get_environment_data db did = db_get data_id (readings db) did"

text \<open>
  \<^verbatim>\<open>db.add(db_data); db.commit()\<close> on the reading table: a \<^verbatim>\<open>Float\<close> column, a
  primary key, and the foreign keys \<^verbatim>\<open>index_id\<close>, \<^verbatim>\<open>device_id\<close> and \<^verbatim>\<open>area_id\<close>
  (lines 27, 28 and 31 of \<^verbatim>\<open>models.py\<close>).
\<close>

definition insert_environment_data :: "database \<Rightarrow> environment_data \<Rightarrow> error + database" where
  "insert_environment_data db r =
     (if \<not> is_finite (monitor_value r) then Inl DBAPIError
      else if get_environment_data db (data_id r) \<noteq> None then Inl IntegrityError
      else if get_monitor_index db (data_index_id r) = None
              \<or> get_monitor_device db (data_device_id r) = None
              \<or> db_get area_id (areas db) (data_area_id r) = None
      then Inl IntegrityError
      else Inr (db\<lparr>readings := readings db @ [r]\<rparr>))"

text \<open>
  \<^verbatim>\<open>create_environment_data\<close>. The parameter \<open>fmt\<close> is the text that an f-string
  puts for a float (Python's own \<^verbatim>\<open>format\<close>, not code of the repository). A row
  without a primary key cannot be inserted. The call does not set \<^verbatim>\<open>audit_status\<close>,
  so the row gets the column default.
\<close>

definition create_environment_data ::
  "(pyfloat \<Rightarrow> string) \<Rightarrow> database \<Rightarrow> datetime \<Rightarrow> environment_data_create
     \<Rightarrow> error + database \<times> environment_data" where
  "create_environment_data fmt db now data =
     (let monitor_index = get_monitor_index db (edc_index_id data);
          (abnormal_flag, reason) =
             (case monitor_index of
                None \<Rightarrow> (0, None)
              | Some mi \<Rightarrow>
                  if float_gt (edc_monitor_value data) (upper_threshold mi)
                  then (1, Some (REASON_HEAD @ fmt (edc_monitor_value data)
                                  @ REASON_UPPER @ fmt (upper_threshold mi)))
                  else if float_lt (edc_monitor_value data) (lower_threshold mi)
                  then (1, Some (REASON_HEAD @ fmt (edc_monitor_value data)
                                  @ REASON_LOWER @ fmt (lower_threshold mi)))
                  else (0, None))
      in case edc_data_id data of
           None \<Rightarrow> Inl IntegrityError
         | Some did \<Rightarrow>
             (let db_data = \<lparr>data_id = did,
                             data_index_id = edc_index_id data,
                             data_device_id = edc_device_id data,
                             collect_time = edc_collect_time data,
                             monitor_value = edc_monitor_value data,
                             data_area_id = edc_area_id data,
                             data_quality = edc_data_quality data,
                             is_abnormal = abnormal_flag,
                             abnormal_reason = reason,
                             audit_status = UNAUDITED,
                             data_created_at = Some now,
                             data_updated_at = Some now\<rparr>
              in case insert_environment_data db db_data of
                   Inl e \<Rightarrow> Inl e
                 | Inr db' \<Rightarrow> Inr (db', db_data)))"

text \<open>
  Names for two parts of \<^verbatim>\<open>create_environment_data\<close>, for the proofs: the pair of flag
  and reason that the two comparisons give, and the row that is handed to the insert.
\<close>

definition classification ::
  "(pyfloat \<Rightarrow> string) \<Rightarrow> monitor_index option \<Rightarrow> pyfloat \<Rightarrow> int \<times> string option" where
  "classification fmt monitor_index v =
     (case monitor_index of
        None \<Rightarrow> (0, None)
      | Some mi \<Rightarrow>
          if float_gt v (upper_threshold mi)
          then (1, Some (REASON_HEAD @ fmt v @ REASON_UPPER @ fmt (upper_threshold mi)))
          else if float_lt v (lower_threshold mi)
          then (1, Some (REASON_HEAD @ fmt v @ REASON_LOWER @ fmt (lower_threshold mi)))
          else (0, None))"

definition reading_row ::
  "(pyfloat \<Rightarrow> string) \<Rightarrow> database \<Rightarrow> datetime \<Rightarrow> environment_data_create \<Rightarrow> string
     \<Rightarrow> environment_data" where
  "reading_row fmt db now data did =
     \<lparr>data_id = did,
      data_index_id = edc_index_id data,
      data_device_id = edc_device_id data,
      collect_time = edc_collect_time data,
      monitor_value = edc_monitor_value data,
      data_area_id = edc_area_id data,
      data_quality = edc_data_quality data,
      is_abnormal =
        fst (classification fmt (get_monitor_index db (edc_index_id data)) (edc_monitor_value data)),
      abnormal_reason =
        snd (classification fmt (get_monitor_index db (edc_index_id data)) (edc_monitor_value data)),
      audit_status = UNAUDITED,
      data_created_at = Some now,
      data_updated_at = Some now\<rparr>"

definition update_data_audit_status ::
  "database \<Rightarrow> datetime \<Rightarrow> string \<Rightarrow> string \<Rightarrow> string option
     \<Rightarrow> database \<times> environment_data option" where
  "update_data_audit_status db now did new_status new_reason =
     (case get_environment_data db did of
        None \<Rightarrow> (db, None)
      | Some db_data \<Rightarrow>
          (let d1 = db_data\<lparr>audit_status := new_status\<rparr>;
               d2 = (case new_reason of None \<Rightarrow> d1 | Some r \<Rightarrow> d1\<lparr>abnormal_reason := Some r\<rparr>);
               d3 = d2\<lparr>data_updated_at := Some now\<rparr>
           in (db\<lparr>readings := db_update data_id (readings db) did d3\<rparr>, Some d3)))"

text \<open>
  Endpoint \<^verbatim>\<open>POST /environment-data\<close>. The caller may be anonymous. \<open>generated_id\<close>
  is the identifier that the endpoint builds from the clock and \<^verbatim>\<open>uuid4\<close> when the
  payload has none; \<^verbatim>\<open>not data.data_id\<close> holds for \<^verbatim>\<open>None\<close> and for the empty text.
\<close>

definition api_create_environment_data ::
  "(pyfloat \<Rightarrow> string) \<Rightarrow> string \<Rightarrow> database \<Rightarrow> datetime \<Rightarrow> user option
     \<Rightarrow> environment_data_create \<Rightarrow> error + database \<times> environment_data" where
  "api_create_environment_data fmt generated_id db now current_user data =
     (case (case current_user of None \<Rightarrow> Inr () | Some u \<Rightarrow> require_roles u MANAGERS) of
        Inl e \<Rightarrow> Inl e
      | Inr _ \<Rightarrow>
          (let did = (case edc_data_id data of
                        None \<Rightarrow> generated_id
                      | Some i \<Rightarrow> if i = [] then generated_id else i)
           in case get_environment_data db did of
                Some existing \<Rightarrow> Inl (HTTPException 400)
              | None \<Rightarrow> create_environment_data fmt db now (data\<lparr>edc_data_id := Some did\<rparr>)))"

text \<open>Endpoint \<^verbatim>\<open>PUT /environment-data/{data_id}/audit\<close>.\<close>

definition audit_environment_data ::
  "database \<Rightarrow> datetime \<Rightarrow> user \<Rightarrow> string \<Rightarrow> string \<Rightarrow> string option
     \<Rightarrow> error + database \<times> environment_data" where
  "audit_environment_data db now current_user did new_status new_reason =
     (case require_roles current_user MANAGERS of
        Inl e \<Rightarrow> Inl e
      | Inr _ \<Rightarrow>
          (case update_data_audit_status db now did new_status new_reason of
             (db', None) \<Rightarrow> Inl (HTTPException 404)
           | (db', Some updated) \<Rightarrow> Inr (db', updated)))"

section \<open>Calibration ledger\<close>

text \<open>Schema \<^verbatim>\<open>CalibrationRecordCreate\<close>.\<close>

record calibration_record_create =
  crc_record_id :: "string option"
  crc_device_id :: int
  crc_calibration_time :: datetime
  crc_calibrator_id :: int
  crc_calibration_result :: string
  crc_calibration_desc :: "string option"

definition get_calibration_record :: "database \<Rightarrow> string \<Rightarrow> calibration_record option" where
  "get_calibration_record db rid = db_get record_id (calibrations db) rid"

text \<open>
  \<^verbatim>\<open>db.add(db_record); db.commit()\<close> on the calibration record table: a primary key
  and the foreign keys \<^verbatim>\<open>device_id\<close> and \<^verbatim>\<open>calibrator_id\<close> (lines 48 and 50 of
  \<^verbatim>\<open>models.py\<close>).
\<close>

definition insert_calibration_record :: "database \<Rightarrow> calibration_record \<Rightarrow> error + database"
  where
  "insert_calibration_record db r =
     (if get_calibration_record db (record_id r) \<noteq> None then Inl IntegrityError
      else if get_monitor_device db (rec_device_id r) = None
              \<or> db_get user_id (users db) (calibrator_id r) = None
      then Inl IntegrityError
      else Inr (db\<lparr>calibrations := calibrations db @ [r]\<rparr>))"

text \<open>
  \<^verbatim>\<open>create_calibration_record\<close>: the assignment to the device and the new record reach
  the store in the one \<^verbatim>\<open>db.commit()\<close>; when the insert fails the transaction fails
  and the store is as before.
\<close>

definition create_calibration_record ::
  "database \<Rightarrow> datetime \<Rightarrow> calibration_record_create
     \<Rightarrow> error + database \<times> calibration_record" where
  "create_calibration_record db now record =
     (case crc_record_id record of
        None \<Rightarrow> Inl IntegrityError
      | Some rid \<Rightarrow>
          (let db_record = \<lparr>record_id = rid,
                            rec_device_id = crc_device_id record,
                            calibration_time = crc_calibration_time record,
                            calibrator_id = crc_calibrator_id record,
                            calibration_result = crc_calibration_result record,
                            calibration_desc = crc_calibration_desc record,
                            rec_created_at = Some now,
                            rec_updated_at = Some now\<rparr>;
               devices' =
                 (case get_monitor_device db (crc_device_id record) of
                    None \<Rightarrow> devices db
                  | Some device \<Rightarrow>
                      db_update dev_id (devices db) (crc_device_id record)
                        (device\<lparr>last_calibration_time := Some (crc_calibration_time record),
                                 dev_updated_at := Some now\<rparr>))
           in case insert_calibration_record db db_record of
                Inl e \<Rightarrow> Inl e
              | Inr db' \<Rightarrow> Inr (db'\<lparr>devices := devices'\<rparr>, db_record)))"

text \<open>
  Endpoint \<^verbatim>\<open>POST /calibration-records\<close>. Unlike the two endpoints above it does not
  look the identifier up before it calls the query.
\<close>

definition api_create_calibration_record ::
  "string \<Rightarrow> database \<Rightarrow> datetime \<Rightarrow> user \<Rightarrow> calibration_record_create
     \<Rightarrow> error + database \<times> calibration_record" where
  "api_create_calibration_record generated_id db now current_user record =
     (case require_roles current_user MANAGERS of
        Inl e \<Rightarrow> Inl e
      | Inr _ \<Rightarrow>
          (let rid = (case crc_record_id record of
                        None \<Rightarrow> generated_id
                      | Some i \<Rightarrow> if i = [] then generated_id else i)
           in create_calibration_record db now (record\<lparr>crc_record_id := Some rid\<rparr>)))"

section \<open>Reporting aggregator\<close>

subsection \<open>Binary64 arithmetic of the quality rate\<close>

text \<open>
  \<^verbatim>\<open>round(qualified * 100.0 / total, 2)\<close> is computed on binary64 floats. A finite
  float is the rational it equals; \<open>to_double\<close> rounds a rational to the nearest float
  with a 53-bit significand, ties to even. The exponent is not bounded: overflow and
  subnormal numbers are out of reach of a quotient of two row counts.
  \<^verbatim>\<open>round(x, 2)\<close> rounds the exact value of \<open>x\<close> to two decimals, ties to even, and
  returns the float nearest to that decimal.
\<close>

definition round_half_even :: "rat \<Rightarrow> int" where
  "round_half_even x =
     (let f = \<lfloor>x\<rfloor>; d = x - of_int f
      in if d < 1 / 2 then f else if d > 1 / 2 then f + 1 else if even f then f else f + 1)"

function bit_length :: "int \<Rightarrow> int" where
  "bit_length n = (if n \<le> 0 then 0 else 1 + bit_length (n div 2))"
  by pat_completeness auto
termination
  by (relation "measure nat") auto

declare bit_length.simps [simp del]

definition pow2 :: "int \<Rightarrow> rat" where
  "pow2 e = (if e \<ge> 0 then 2 ^ nat e else 1 / 2 ^ nat (- e))"

definition to_double :: "rat \<Rightarrow> rat" where
  "to_double x =
     (if x = 0 then 0
      else
        (let a = \<bar>x\<bar>;
             (p, q) = quotient_of a;
             k0 = bit_length p - bit_length q;
             k = (if pow2 k0 \<le> a then k0 else k0 - 1);
             e = k - 52;
             m = round_half_even (a / pow2 e)
         in sgn x * of_int m * pow2 e))"

definition py_round2 :: "rat \<Rightarrow> rat" where
  "py_round2 x = to_double (of_int (round_half_even (x * 100)) / 100)"

text \<open>\<^verbatim>\<open>round((qualified * 100.0 / total), 2) if total else 0.0\<close>.\<close>

definition quality_rate :: "int \<Rightarrow> int \<Rightarrow> rat" where
  "quality_rate qualified total_count =
     (if total_count = 0 then 0
      else py_round2 (to_double (to_double (to_double (of_int qualified) * 100)
                        / to_double (of_int total_count))))"

subsection \<open>Sorting\<close>

text \<open>
  \<^verbatim>\<open>list.sort(key=..., reverse=True)\<close> is stable: rows with equal keys keep their
  order. The same function stands for \<^verbatim>\<open>ORDER BY ... DESC\<close>, where the database does
  not fix the order of rows with equal keys.
\<close>

definition sort_desc :: "('a \<Rightarrow> 'k::linorder) \<Rightarrow> 'a list \<Rightarrow> 'a list" where
  "sort_desc key xs = rev (sort_key key (rev xs))"

subsection \<open>Device quality rate\<close>

record quality_row =
  qr_device_id :: int
  qr_device_type :: string
  qr_area_name :: string
  total_data_count :: int
  qualified_count :: int
  qualified_rate :: rat

text \<open>
  The readings that the outer join attaches to a device:
  \<^verbatim>\<open>device_id == device.id AND collect_time >= start_time\<close>.
\<close>

definition window_readings :: "database \<Rightarrow> datetime \<Rightarrow> monitor_device \<Rightarrow> environment_data list"
  where
  "window_readings db start_time device =
     filter (\<lambda>r. data_device_id r = dev_id device \<and> collect_time r \<ge> start_time) (readings db)"

text \<open>
  The grouped query: one group for each device that the inner join pairs with the area
  whose \<^verbatim>\<open>id\<close> is the device's \<^verbatim>\<open>deployment_area_id\<close> (primary keys are unique; a
  device without such an area has no row). \<^verbatim>\<open>count(data_id)\<close> counts the attached
  readings, the \<^verbatim>\<open>sum(case ...)\<close> those graded excellent or good. The Python loop
  then computes the rate of each row.
\<close>

definition quality_rate_row :: "database \<Rightarrow> datetime \<Rightarrow> monitor_device \<Rightarrow> quality_row option"
  where
  "quality_rate_row db start_time device =
     (case deployment_area_id device of
        None \<Rightarrow> None
      | Some aid \<Rightarrow>
          (case db_get area_id (areas db) aid of
             None \<Rightarrow> None
           | Some a \<Rightarrow>
               (let rs = window_readings db start_time device;
                    total_count = int (length rs);
                    qualified =
                      int (length (filter (\<lambda>r. data_quality r \<in> {QUALITY_EXCELLENT, QUALITY_GOOD}) rs))
                in Some \<lparr>qr_device_id = dev_id device,
                         qr_device_type = dev_type device,
                         qr_area_name = area_name a,
                         total_data_count = total_count,
                         qualified_count = qualified,
                         qualified_rate = quality_rate qualified total_count\<rparr>)))"

definition get_device_data_quality_rate :: "database \<Rightarrow> datetime \<Rightarrow> int \<Rightarrow> quality_row list" where
  "get_device_data_quality_rate db now days =
     (let end_time = now;
          start_time = end_time - timedelta days;
          result = List.map_filter (quality_rate_row db start_time) (devices db)
      in sort_desc qualified_rate result)"

subsection \<open>Protected-area abnormal report\<close>

record core_row =
  cr_data_id :: string
  cr_collect_time :: datetime
  cr_monitor_value :: pyfloat
  cr_upper_threshold :: pyfloat
  cr_lower_threshold :: pyfloat
  cr_device_id :: int
  cr_device_type :: string
  run_status :: "string option"
  cr_area_name :: string
  cr_abnormal_reason :: "string option"

text \<open>
  The three inner joins pair a reading with its indicator, its device and its area
  (each a lookup by primary key); the four \<^verbatim>\<open>where\<close> conditions select.
\<close>

definition core_protection_row ::
  "database \<Rightarrow> datetime \<Rightarrow> string \<Rightarrow> environment_data \<Rightarrow> core_row option" where
  "core_protection_row db start_time iname r =
     (case get_monitor_index db (data_index_id r) of
        None \<Rightarrow> None
      | Some mi \<Rightarrow>
          (case get_monitor_device db (data_device_id r) of
             None \<Rightarrow> None
           | Some device \<Rightarrow>
               (case db_get area_id (areas db) (data_area_id r) of
                  None \<Rightarrow> None
                | Some a \<Rightarrow>
                    if area_type a = CORE_PROTECTION \<and> index_name mi = iname
                       \<and> is_abnormal r = 1 \<and> collect_time r \<ge> start_time
                    then Some \<lparr>cr_data_id = data_id r,
                              cr_collect_time = collect_time r,
                              cr_monitor_value = monitor_value r,
                              cr_upper_threshold = upper_threshold mi,
                              cr_lower_threshold = lower_threshold mi,
                              cr_device_id = dev_id device,
                              cr_device_type = dev_type device,
                              run_status = status device,
                              cr_area_name = area_name a,
                              cr_abnormal_reason = abnormal_reason r\<rparr>
                    else None)))"

definition query_core_protection_abnormal_data ::
  "database \<Rightarrow> datetime \<Rightarrow> string \<Rightarrow> int \<Rightarrow> core_row list" where
  "query_core_protection_abnormal_data db now iname days =
     (let start_time = now - timedelta days
      in sort_desc cr_collect_time
           (List.map_filter (core_protection_row db start_time iname) (readings db)))"

text \<open>
  The report as the specification words it, for comparison: the readings that are
  abnormal, collected within the window of \<open>days\<close> days that ends at the call time,
  whose indicator has the given name and whose area is a core protection area.
\<close>

definition spec_core_protection_abnormal ::
  "database \<Rightarrow> datetime \<Rightarrow> string \<Rightarrow> int \<Rightarrow> environment_data list" where
  "spec_core_protection_abnormal db now iname days =
     filter (\<lambda>r. is_abnormal r = 1
                \<and> now - timedelta days \<le> collect_time r \<and> collect_time r \<le> now
                \<and> (case get_monitor_index db (data_index_id r) of
                      None \<Rightarrow> False | Some mi \<Rightarrow> index_name mi = iname)
                \<and> (case db_get area_id (areas db) (data_area_id r) of
                      None \<Rightarrow> False | Some a \<Rightarrow> area_type a = CORE_PROTECTION))
       (readings db)"

section \<open>Sample stores\<close>

text \<open>Concrete rows and stores on which the theorems below are exercised.\<close>

definition sample_device ::
  "int \<Rightarrow> string option \<Rightarrow> int option \<Rightarrow> datetime option \<Rightarrow> int option \<Rightarrow> monitor_device" where
  "sample_device i st cyc last_cal aid =
     \<lparr>dev_id = i, dev_type = ''sensor'', deployment_area_id = aid, install_time = None,
      calibration_cycle = cyc, last_calibration_time = last_cal, status = st,
      communication_protocol = None, latitude = None, longitude = None,
      dev_created_at = None, dev_updated_at = None\<rparr>"

definition empty_db :: database where
  "empty_db =
     \<lparr>indices = [], devices = [], areas = [], users = [], readings = [], calibrations = []\<rparr>"

definition admin :: user where
  "admin = \<lparr>user_id = 7, role_type = ROLE_SYS_ADMIN\<rparr>"

definition sample_index :: monitor_index where
  "sample_index =
     \<lparr>index_id = ''PM25'', index_name = ''PM2.5'', unit = ''ug/m3'', upper_threshold = Fin 75,
      lower_threshold = Fin 0, monitor_frequency = ''hour'', idx_created_at = Some 0,
      idx_updated_at = Some 0\<rparr>"

definition sample_area :: "int \<Rightarrow> string \<Rightarrow> area" where
  "sample_area i ty = \<lparr>area_id = i, area_name = ''valley'', area_type = ty\<rparr>"

definition sample_reading ::
  "string \<Rightarrow> int \<Rightarrow> datetime \<Rightarrow> string \<Rightarrow> int \<Rightarrow> environment_data" where
  "sample_reading i dev t quality flag =
     \<lparr>data_id = i, data_index_id = ''PM25'', data_device_id = dev, collect_time = t,
      monitor_value = Fin 120, data_area_id = 1, data_quality = quality, is_abnormal = flag,
      abnormal_reason = None, audit_status = UNAUDITED, data_created_at = Some t,
      data_updated_at = Some t\<rparr>"

definition sample_data :: "pyfloat \<Rightarrow> environment_data_create" where
  "sample_data v =
     \<lparr>edc_data_id = Some ''R1'', edc_index_id = ''PM25'', edc_device_id = 1,
      edc_collect_time = 0, edc_monitor_value = v, edc_area_id = 1,
      edc_data_quality = QUALITY_FAIR\<rparr>"

definition sample_record :: calibration_record_create where
  "sample_record =
     \<lparr>crc_record_id = Some ''CR1'', crc_device_id = 1, crc_calibration_time = 100,
      crc_calibrator_id = 7, crc_calibration_result = ''pass'', crc_calibration_desc = None\<rparr>"

definition sample_calibration :: calibration_record where
  "sample_calibration =
     \<lparr>record_id = ''CR1'', rec_device_id = 1, calibration_time = 50, calibrator_id = 7,
      calibration_result = ''pass'', calibration_desc = None, rec_created_at = Some 50,
      rec_updated_at = Some 50\<rparr>"


definition sample_index_create :: monitor_index_create where
  "sample_index_create =
     \<lparr>mic_index_id = ''PM25'', mic_index_name = ''PM2.5'', mic_unit = ''ug/m3'',
      mic_upper_threshold = Fin 75, mic_lower_threshold = Fin 0,
      mic_monitor_frequency = ''hour''\<rparr>"

text \<open>A float formatter for the sample values.\<close>

definition sample_fmt :: "pyfloat \<Rightarrow> string" where
  "sample_fmt x =
     (if x = Fin 120 then ''120.0'' else if x = Fin 75 then ''75.0''
      else if x = Fin 0 then ''0.0'' else if x = Fin (- 5) then ''-5.0'' else ''nan'')"

definition sample_core_db :: database where
  "sample_core_db =
     \<lparr>indices = [sample_index],
      devices = [sample_device 1 (Some NORMAL) (Some 30) None (Some 1)],
      areas = [sample_area 1 CORE_PROTECTION],
      users = [],
      readings = [sample_reading ''R1'' 1 (11 * DAY) QUALITY_FAIR 1,
                  sample_reading ''R2'' 99 (9 * DAY) QUALITY_FAIR 1,
                  sample_reading ''R3'' 1 (8 * DAY) QUALITY_FAIR 1],
      calibrations = []\<rparr>"

definition sample_quality_db :: database where
  "sample_quality_db =
     \<lparr>indices = [sample_index],
      devices = [sample_device 1 (Some NORMAL) (Some 30) None None,
                 sample_device 2 (Some NORMAL) (Some 30) None (Some 1),
                 sample_device 3 (Some NORMAL) (Some 30) None (Some 1)],
      areas = [sample_area 1 CORE_PROTECTION],
      users = [],
      readings = [sample_reading ''Q1'' 2 (9 * DAY) QUALITY_EXCELLENT 0,
                  sample_reading ''Q2'' 2 (9 * DAY) QUALITY_FAIR 0,
                  sample_reading ''Q3'' 2 (9 * DAY) QUALITY_FAIR 0],
      calibrations = []\<rparr>"

text \<open>
  A store in which every reference of the sample payloads has its referent: indicator
  \<open>PM25\<close>, device 1, area 1 and the user 7.
\<close>

definition sample_base_db :: database where
  "sample_base_db =
     \<lparr>indices = [sample_index],
      devices = [sample_device 1 (Some NORMAL) (Some 30) (Some 0) (Some 1)],
      areas = [sample_area 1 CORE_PROTECTION],
      users = [admin],
      readings = [],
      calibrations = []\<rparr>"

text \<open>
  Four devices as \<^verbatim>\<open>create_monitor_device\<close> stores them: cycle 7, cycle 45, offline,
  and never calibrated.
\<close>

definition sample_schedule_db :: database where
  "sample_schedule_db =
     empty_db\<lparr>devices := [sample_device 1 (Some NORMAL) (Some 7) (Some 0) None,
                           sample_device 2 (Some NORMAL) (Some 45) (Some 0) None,
                           sample_device 3 (Some OFFLINE) (Some 7) (Some 0) None,
                           sample_device 4 (Some NORMAL) (Some 30) None None]\<rparr>"

text \<open>The store above, holding a reading and a calibration record as well.\<close>

definition sample_full_db :: database where
  "sample_full_db =
     sample_base_db\<lparr>readings := [sample_reading ''R1'' 1 0 QUALITY_FAIR 1],
                    calibrations := [sample_calibration]\<rparr>"

section \<open>Basic facts\<close>

lemma NORMAL_not_OFFLINE: "NORMAL \<noteq> OFFLINE"
  by (simp add: NORMAL_def OFFLINE_def)

lemma DAY_pos: "0 < DAY"
  by (simp add: DAY_def)

lemma mem_needing_calibration:
  "d \<in> set (get_devices_needing_calibration db now) \<longleftrightarrow>
     d \<in> set (devices db) \<and> status_not_offline d \<and> needs_calibration now d"
  by (auto simp: get_devices_needing_calibration_def)

lemma status_not_offline_iff:
  "status_not_offline d \<longleftrightarrow> (\<exists>s. status d = Some s \<and> s \<noteq> OFFLINE)"
  by (simp add: status_not_offline_def split: option.splits)

lemma needs_calibration_iff:
  "needs_calibration now d \<longleftrightarrow>
     (last_calibration_time d = None
      \<or> (\<exists>t. last_calibration_time d = Some t
              \<and> (now - t) div DAY \<ge> cycle_or_30 (calibration_cycle d)))"
  by (simp add: needs_calibration_def timedelta_days_def split: option.splits)

lemma datediff_le_days: "datediff_day t now - 1 \<le> timedelta_days (now - t)"
proof -
  have "DAY * (now div DAY - t div DAY - 1) \<le> now - t"
  proof -
    have a: "DAY * (now div DAY) \<le> now"
      using DAY_pos pos_mod_sign [of DAY now] mult_div_mod_eq [of DAY now] by linarith
    have b: "t < DAY * (t div DAY) + DAY"
      using DAY_pos pos_mod_bound [of DAY t] mult_div_mod_eq [of DAY t] by linarith
    show ?thesis using a b by (simp add: algebra_simps)
  qed
  then have "(DAY * (now div DAY - t div DAY - 1)) div DAY \<le> (now - t) div DAY"
    using DAY_pos zdiv_mono1 by blast
  then show ?thesis
    using DAY_pos by (simp add: datediff_day_def timedelta_days_def)
qed

section \<open>Calibration scheduler\<close>

text \<open>
  C2. A device that the program stores has a status and a calibration cycle of at least
  one day (\<^verbatim>\<open>MonitorDeviceCreate\<close> has \<^verbatim>\<open>status: str\<close> and
  \<^verbatim>\<open>calibration_cycle: int = Field(30, ge=1)\<close>; \<^verbatim>\<open>update_device_status\<close> takes a
  string). For every such device \<open>d\<close> and every instant \<open>now\<close>, the calibration-due
  query returns \<open>d\<close> exactly when \<open>d\<close> is stored, its status is not offline, and it was
  never calibrated or the whole-day difference between \<open>now\<close> and its last calibration
  is at least its cycle. A device whose status is offline is never returned, whatever
  its cycle and the time elapsed.
\<close>
theorem C2_calibration_due:
  "(status d = Some s \<and> calibration_cycle d = Some c \<and> 1 \<le> c \<longrightarrow>
      (d \<in> set (get_devices_needing_calibration db now) \<longleftrightarrow>
         d \<in> set (devices db) \<and> s \<noteq> OFFLINE
         \<and> (last_calibration_time d = None
            \<or> (\<exists>t. last_calibration_time d = Some t \<and> timedelta_days (now - t) \<ge> c))))
   \<and> (status d = Some OFFLINE \<longrightarrow> d \<notin> set (get_devices_needing_calibration db now))"
  by (auto simp: mem_needing_calibration status_not_offline_iff needs_calibration_iff
      timedelta_days_def cycle_or_30_def)

text \<open>
  C2 at a sample, 31 days after the last calibrations: the device with cycle 7 is
  returned, the one with cycle 45 is not, the offline one is not, the one never
  calibrated is.
\<close>
theorem C2_calibration_due_witness:
  "status (sample_device 1 (Some NORMAL) (Some 7) (Some 0) None) = Some NORMAL
   \<and> calibration_cycle (sample_device 1 (Some NORMAL) (Some 7) (Some 0) None) = Some 7
   \<and> (1::int) \<le> 7
   \<and> sample_device 1 (Some NORMAL) (Some 7) (Some 0) None
       \<in> set (get_devices_needing_calibration sample_schedule_db (31 * DAY))
   \<and> calibration_cycle (sample_device 2 (Some NORMAL) (Some 45) (Some 0) None) = Some 45
   \<and> sample_device 2 (Some NORMAL) (Some 45) (Some 0) None
       \<notin> set (get_devices_needing_calibration sample_schedule_db (31 * DAY))
   \<and> status (sample_device 3 (Some OFFLINE) (Some 7) (Some 0) None) = Some OFFLINE
   \<and> sample_device 3 (Some OFFLINE) (Some 7) (Some 0) None
       \<notin> set (get_devices_needing_calibration sample_schedule_db (31 * DAY))
   \<and> last_calibration_time (sample_device 4 (Some NORMAL) (Some 30) None None) = None
   \<and> sample_device 4 (Some NORMAL) (Some 30) None None
       \<in> set (get_devices_needing_calibration sample_schedule_db (31 * DAY))"
  using
    C2_calibration_due [where d = "sample_device 1 (Some NORMAL) (Some 7) (Some 0) None"
      and s = NORMAL and c = 7 and db = sample_schedule_db and now = "31 * DAY"]
    C2_calibration_due [where d = "sample_device 2 (Some NORMAL) (Some 45) (Some 0) None"
      and s = NORMAL and c = 45 and db = sample_schedule_db and now = "31 * DAY"]
    C2_calibration_due [where d = "sample_device 3 (Some OFFLINE) (Some 7) (Some 0) None"
      and s = OFFLINE and c = 7 and db = sample_schedule_db and now = "31 * DAY"]
    C2_calibration_due [where d = "sample_device 4 (Some NORMAL) (Some 30) None None"
      and s = NORMAL and c = 30 and db = sample_schedule_db and now = "31 * DAY"]
  by (simp add: sample_device_def sample_schedule_db_def empty_db_def NORMAL_not_OFFLINE
      timedelta_days_def DAY_def)

text \<open>
  C10. In the calibration-due query a device whose cycle is \<^verbatim>\<open>NULL\<close> is judged as the
  same device with cycle 30 is: stored and passing the status filter, it is returned
  exactly when it was never calibrated or at least 30 whole days have elapsed since
  its last calibration. The query is a total function: such a device raises no error.
\<close>

theorem C10_null_cycle_is_30:
  assumes "calibration_cycle d = None"
  shows "needs_calibration now d = needs_calibration now (d\<lparr>calibration_cycle := Some 30\<rparr>)
    \<and> (d \<in> set (devices db) \<and> status d = Some s \<and> s \<noteq> OFFLINE \<longrightarrow>
         (d \<in> set (get_devices_needing_calibration db now) \<longleftrightarrow>
           (last_calibration_time d = None
            \<or> (\<exists>t. last_calibration_time d = Some t \<and> timedelta_days (now - t) \<ge> 30))))"
  using assms
  by (auto simp: needs_calibration_def cycle_or_30_def mem_needing_calibration
      status_not_offline_iff split: option.splits)

theorem C10_null_cycle_is_30_witness:
  "calibration_cycle (sample_device 3 (Some NORMAL) None (Some 0) None) = None
   \<and> sample_device 3 (Some NORMAL) None (Some 0) None
       \<in> set (devices (empty_db\<lparr>devices := [sample_device 3 (Some NORMAL) None (Some 0) None]\<rparr>))
   \<and> status (sample_device 3 (Some NORMAL) None (Some 0) None) = Some NORMAL
   \<and> NORMAL \<noteq> OFFLINE
   \<and> timedelta_days (30 * DAY - 0) \<ge> 30
   \<and> sample_device 3 (Some NORMAL) None (Some 0) None
       \<in> set (get_devices_needing_calibration
                (empty_db\<lparr>devices := [sample_device 3 (Some NORMAL) None (Some 0) None]\<rparr>)
                (30 * DAY))
   \<and> sample_device 3 (Some NORMAL) None (Some 0) None
       \<notin> set (get_devices_needing_calibration
                (empty_db\<lparr>devices := [sample_device 3 (Some NORMAL) None (Some 0) None]\<rparr>)
                (30 * DAY - 1))"
proof -
  have h: "calibration_cycle (sample_device 3 (Some NORMAL) None (Some 0) None) = None"
    by (simp add: sample_device_def)
  show ?thesis
    using h
      C10_null_cycle_is_30 [OF h, of "30 * DAY"
        "empty_db\<lparr>devices := [sample_device 3 (Some NORMAL) None (Some 0) None]\<rparr>" NORMAL]
      C10_null_cycle_is_30 [OF h, of "30 * DAY - 1"
        "empty_db\<lparr>devices := [sample_device 3 (Some NORMAL) None (Some 0) None]\<rparr>" NORMAL]
    by (simp add: sample_device_def empty_db_def NORMAL_not_OFFLINE timedelta_days_def DAY_def)
qed

section \<open>The two overdue predicates\<close>

text \<open>
  C5. For every device with a calibration cycle of at least one day, the condition of
  the overdue report (never calibrated, or more midnights than the cycle since the last
  calibration) implies the condition of the scheduler (never calibrated, or at least as
  many whole days as the cycle). The converse fails: a device calibrated exactly as many
  days before the call as its cycle has both day counts equal to the cycle, satisfies
  the scheduler's condition and not the report's; such a device exists.
\<close>
theorem C5_overdue_stricter:
  "(calibration_cycle d = Some c \<and> 1 \<le> c \<and> overdue_condition now d
      \<longrightarrow> needs_calibration now d)
   \<and> (calibration_cycle d = Some c \<and> 1 \<le> c \<and> last_calibration_time d = Some t
       \<and> now = t + c * DAY
      \<longrightarrow> timedelta_days (now - t) = c \<and> datediff_day t now = c
          \<and> needs_calibration now d \<and> \<not> overdue_condition now d)
   \<and> (\<exists>d' now'. calibration_cycle d' = Some 30
         \<and> needs_calibration now' d' \<and> \<not> overdue_condition now' d')"
proof (intro conjI impI)
  assume h: "calibration_cycle d = Some c \<and> 1 \<le> c \<and> overdue_condition now d"
  show "needs_calibration now d"
  proof (cases "last_calibration_time d")
    case None
    then show ?thesis by (simp add: needs_calibration_def)
  next
    case (Some t')
    with h have "datediff_day t' now > c"
      by (auto simp: overdue_condition_def)
    with datediff_le_days [of t' now] have "c \<le> timedelta_days (now - t')" by linarith
    with Some h show ?thesis by (simp add: needs_calibration_def cycle_or_30_def)
  qed
next
  assume h: "calibration_cycle d = Some c \<and> 1 \<le> c \<and> last_calibration_time d = Some t
       \<and> now = t + c * DAY"
  have days: "timedelta_days (now - t) = c"
    using h DAY_pos by (simp add: timedelta_days_def)
  have dd: "datediff_day t now = c"
    using h DAY_pos by (simp add: datediff_day_def)
  show "timedelta_days (now - t) = c" by (rule days)
  show "datediff_day t now = c" by (rule dd)
  show "needs_calibration now d"
    using h days by (simp add: needs_calibration_def cycle_or_30_def)
  show "\<not> overdue_condition now d"
    using h dd by (simp add: overdue_condition_def)
next
  have "calibration_cycle (sample_device 1 (Some NORMAL) (Some 30) (Some 0) None) = Some 30
      \<and> needs_calibration (30 * DAY) (sample_device 1 (Some NORMAL) (Some 30) (Some 0) None)
      \<and> \<not> overdue_condition (30 * DAY) (sample_device 1 (Some NORMAL) (Some 30) (Some 0) None)"
    by (simp add: sample_device_def needs_calibration_def overdue_condition_def cycle_or_30_def
        timedelta_days_def datediff_day_def DAY_def)
  then show "\<exists>d' now'. calibration_cycle d' = Some 30
         \<and> needs_calibration now' d' \<and> \<not> overdue_condition now' d'"
    by blast
qed

text \<open>C5 at a sample: cycle 30, seen 31 days and exactly 30 days after the calibration.\<close>
theorem C5_overdue_stricter_witness:
  "calibration_cycle (sample_device 1 (Some NORMAL) (Some 30) (Some 0) None) = Some 30
   \<and> (1::int) \<le> 30
   \<and> overdue_condition (31 * DAY) (sample_device 1 (Some NORMAL) (Some 30) (Some 0) None)
   \<and> needs_calibration (31 * DAY) (sample_device 1 (Some NORMAL) (Some 30) (Some 0) None)
   \<and> last_calibration_time (sample_device 1 (Some NORMAL) (Some 30) (Some 0) None) = Some 0
   \<and> needs_calibration (0 + 30 * DAY) (sample_device 1 (Some NORMAL) (Some 30) (Some 0) None)
   \<and> \<not> overdue_condition (0 + 30 * DAY) (sample_device 1 (Some NORMAL) (Some 30) (Some 0) None)"
  using
    C5_overdue_stricter [of "sample_device 1 (Some NORMAL) (Some 30) (Some 0) None" 30 "31 * DAY" 0]
    C5_overdue_stricter [of "sample_device 1 (Some NORMAL) (Some 30) (Some 0) None" 30
      "0 + 30 * DAY" 0]
  by (simp add: sample_device_def overdue_condition_def datediff_day_def DAY_def)

section \<open>Store operations\<close>

lemma db_get_Some_key: "db_get pk rows k = Some r \<Longrightarrow> pk r = k \<and> r \<in> set rows"
  unfolding db_get_def by (induction rows) (auto split: if_splits)

lemma db_get_None_iff: "db_get pk rows k = None \<longleftrightarrow> (\<forall>r \<in> set rows. pk r \<noteq> k)"
  unfolding db_get_def by (induction rows) auto

lemma db_get_append:
  "db_get pk (rows @ [r]) k =
     (case db_get pk rows k of Some x \<Rightarrow> Some x | None \<Rightarrow> if pk r = k then Some r else None)"
  unfolding db_get_def by (induction rows) auto

lemma db_get_update_same:
  "pk r' = k \<Longrightarrow> db_get pk rows k = Some r \<Longrightarrow> db_get pk (db_update pk rows k r') k = Some r'"
  unfolding db_get_def db_update_def by (induction rows) (auto split: if_splits)

lemma db_get_update_other:
  "pk r' = k \<Longrightarrow> k' \<noteq> k \<Longrightarrow> db_get pk (db_update pk rows k r') k' = db_get pk rows k'"
  unfolding db_get_def db_update_def by (induction rows) auto

lemma require_roles_ok:
  "role_type u \<in> {ROLE_PARK_MANAGER, ROLE_SYS_ADMIN} \<Longrightarrow> require_roles u MANAGERS = Inr ()"
  by (auto simp: require_roles_def MANAGERS_def)

lemma admin_is_manager: "role_type admin \<in> {ROLE_PARK_MANAGER, ROLE_SYS_ADMIN}"
  by (simp add: admin_def)

lemma AUDITED_not_UNAUDITED: "AUDITED \<noteq> UNAUDITED"
  by (simp add: AUDITED_def UNAUDITED_def)

lemma insert_environment_data_ok:
  "is_finite (monitor_value r) \<Longrightarrow> get_environment_data db (data_id r) = None \<Longrightarrow>
   get_monitor_index db (data_index_id r) \<noteq> None \<Longrightarrow>
   get_monitor_device db (data_device_id r) \<noteq> None \<Longrightarrow>
   db_get area_id (areas db) (data_area_id r) \<noteq> None \<Longrightarrow>
   insert_environment_data db r = Inr (db\<lparr>readings := readings db @ [r]\<rparr>)"
  by (simp add: insert_environment_data_def)


lemma insert_environment_data_no_indicator:
  "is_finite (monitor_value r) \<Longrightarrow> get_monitor_index db (data_index_id r) = None \<Longrightarrow>
   insert_environment_data db r = Inl IntegrityError"
  by (simp add: insert_environment_data_def)

lemma get_after_insert_reading:
  "get_environment_data db (data_id r) = None \<Longrightarrow>
   get_environment_data (db\<lparr>readings := readings db @ [r]\<rparr>) (data_id r) = Some r"
  by (simp add: get_environment_data_def db_get_append)

lemma insert_calibration_record_ok:
  "get_calibration_record db (record_id r) = None \<Longrightarrow>
   get_monitor_device db (rec_device_id r) \<noteq> None \<Longrightarrow>
   db_get user_id (users db) (calibrator_id r) \<noteq> None \<Longrightarrow>
   insert_calibration_record db r = Inr (db\<lparr>calibrations := calibrations db @ [r]\<rparr>)"
  by (simp add: insert_calibration_record_def)

lemma insert_calibration_record_refused:
  "get_calibration_record db (record_id r) \<noteq> None
   \<or> get_monitor_device db (rec_device_id r) = None
   \<or> db_get user_id (users db) (calibrator_id r) = None \<Longrightarrow>
   insert_calibration_record db r = Inl IntegrityError"
  by (auto simp: insert_calibration_record_def)

lemma sample_base_lookups:
  "get_monitor_device sample_base_db 1
     = Some (sample_device 1 (Some NORMAL) (Some 30) (Some 0) (Some 1))"
  "db_get user_id (users sample_base_db) 7 = Some admin"
  "get_calibration_record sample_base_db ''CR1'' = None"
  "get_monitor_index sample_base_db ''PM25'' = Some sample_index"
  "db_get area_id (areas sample_base_db) 1 = Some (sample_area 1 CORE_PROTECTION)"
  "get_environment_data sample_base_db ''R1'' = None"
  by (simp_all add: sample_base_db_def get_monitor_device_def get_calibration_record_def
      get_monitor_index_def get_environment_data_def db_get_def sample_device_def admin_def
      sample_index_def sample_area_def)

lemma sample_record_fields:
  "crc_record_id sample_record = Some ''CR1''" "crc_device_id sample_record = 1"
  "crc_calibrator_id sample_record = 7" "crc_calibration_time sample_record = 100"
  by (simp_all add: sample_record_def)

lemma sample_full_lookups:
  "get_monitor_index sample_full_db ''PM25'' \<noteq> None"
  "get_environment_data sample_full_db ''R1'' \<noteq> None"
  "get_calibration_record sample_full_db ''CR1'' \<noteq> None"
  "get_monitor_device sample_full_db 1 \<noteq> None"
  "db_get user_id (users sample_full_db) 7 \<noteq> None"
  by (simp_all add: sample_full_db_def sample_base_db_def get_monitor_index_def
      get_environment_data_def get_calibration_record_def get_monitor_device_def db_get_def
      sample_index_def sample_reading_def sample_calibration_def sample_device_def admin_def)

section \<open>Anomaly detector\<close>

lemma reason_contains_value: "sublist v (h @ v @ m @ b)"
  by (rule sublist_appendI)

lemma reason_contains_bound: "sublist b (h @ v @ m @ b)"
  using sublist_append_leftI [of b "h @ v @ m"] by simp

lemma create_environment_data_unfold:
  "create_environment_data fmt db now data =
     (case edc_data_id data of
        None \<Rightarrow> Inl IntegrityError
      | Some did \<Rightarrow>
          (case insert_environment_data db (reading_row fmt db now data did) of
             Inl e \<Rightarrow> Inl e
           | Inr d \<Rightarrow> Inr (d, reading_row fmt db now data did)))"
  unfolding create_environment_data_def reading_row_def classification_def
  by (simp only: Let_def case_prod_beta)


lemma classification_Some:
  "classification fmt (Some i) v =
     (if float_gt v (upper_threshold i) \<or> float_lt v (lower_threshold i) then 1 else 0,
      if float_gt v (upper_threshold i)
      then Some (REASON_HEAD @ fmt v @ REASON_UPPER @ fmt (upper_threshold i))
      else if float_lt v (lower_threshold i)
      then Some (REASON_HEAD @ fmt v @ REASON_LOWER @ fmt (lower_threshold i))
      else None)"
  by (simp add: classification_def)

lemma reading_row_fields:
  "data_id (reading_row fmt db now data did) = did"
  "data_index_id (reading_row fmt db now data did) = edc_index_id data"
  "data_device_id (reading_row fmt db now data did) = edc_device_id data"
  "data_area_id (reading_row fmt db now data did) = edc_area_id data"
  "monitor_value (reading_row fmt db now data did) = edc_monitor_value data"
  "audit_status (reading_row fmt db now data did) = UNAUDITED"
  "is_abnormal (reading_row fmt db now data did)
     = fst (classification fmt (get_monitor_index db (edc_index_id data)) (edc_monitor_value data))"
  by (simp_all add: reading_row_def)


lemma create_environment_data_ok:
  assumes "edc_data_id data = Some did" and "get_environment_data db did = None"
    and "is_finite (edc_monitor_value data)"
    and "get_monitor_index db (edc_index_id data) \<noteq> None"
    and "get_monitor_device db (edc_device_id data) \<noteq> None"
    and "db_get area_id (areas db) (edc_area_id data) \<noteq> None"
  shows "create_environment_data fmt db now data =
     Inr (db\<lparr>readings := readings db @ [reading_row fmt db now data did]\<rparr>,
          reading_row fmt db now data did)"
proof -
  have ins: "insert_environment_data db (reading_row fmt db now data did) =
      Inr (db\<lparr>readings := readings db @ [reading_row fmt db now data did]\<rparr>)"
    using assms by (intro insert_environment_data_ok) (simp_all add: reading_row_fields)
  show ?thesis
    by (simp only: create_environment_data_unfold assms(1) option.case ins sum.case)
qed

lemma create_environment_data_no_indicator:
  assumes "edc_data_id data = Some did" and "is_finite (edc_monitor_value data)"
    and "get_monitor_index db (edc_index_id data) = None"
  shows "create_environment_data fmt db now data = Inl IntegrityError"
proof -
  have ins: "insert_environment_data db (reading_row fmt db now data did) = Inl IntegrityError"
    using assms by (intro insert_environment_data_no_indicator) (simp_all add: reading_row_fields)
  show ?thesis
    by (simp only: create_environment_data_unfold assms(1) option.case ins sum.case)
qed

lemma reading_row_known_indicator:
  assumes "get_monitor_index db (edc_index_id data) = Some i"
  shows "reading_row fmt db now data did =
     \<lparr>data_id = did,
      data_index_id = edc_index_id data,
      data_device_id = edc_device_id data,
      collect_time = edc_collect_time data,
      monitor_value = edc_monitor_value data,
      data_area_id = edc_area_id data,
      data_quality = edc_data_quality data,
      is_abnormal = (if float_gt (edc_monitor_value data) (upper_threshold i)
                        \<or> float_lt (edc_monitor_value data) (lower_threshold i)
                     then 1 else 0),
      abnormal_reason =
        (if float_gt (edc_monitor_value data) (upper_threshold i)
         then Some (REASON_HEAD @ fmt (edc_monitor_value data) @ REASON_UPPER
                      @ fmt (upper_threshold i))
         else if float_lt (edc_monitor_value data) (lower_threshold i)
         then Some (REASON_HEAD @ fmt (edc_monitor_value data) @ REASON_LOWER
                      @ fmt (lower_threshold i))
         else None),
      audit_status = UNAUDITED,
      data_created_at = Some now,
      data_updated_at = Some now\<rparr>"
  by (simp only: reading_row_def assms classification_Some fst_conv snd_conv)

text \<open>
  C1, as stated, fails in its last part. In a store that holds the device and the area of
  the reading and no indicator \<open>PM25\<close>, the reading is classified as normal, and the
  insert is then refused: the column \<^verbatim>\<open>index_id\<close> of the reading table is a foreign key
  that is not nullable. The call fails with \<open>IntegrityError\<close> and nothing is persisted.
\<close>
theorem C1_counterexample:
  "get_monitor_index (sample_base_db\<lparr>indices := []\<rparr>) (edc_index_id (sample_data (Fin 120))) = None
   \<and> get_environment_data (sample_base_db\<lparr>indices := []\<rparr>) ''R1'' = None
   \<and> get_monitor_device (sample_base_db\<lparr>indices := []\<rparr>) (edc_device_id (sample_data (Fin 120)))
       \<noteq> None
   \<and> db_get area_id (areas (sample_base_db\<lparr>indices := []\<rparr>)) (edc_area_id (sample_data (Fin 120)))
       \<noteq> None
   \<and> create_environment_data sample_fmt (sample_base_db\<lparr>indices := []\<rparr>) 7 (sample_data (Fin 120))
       = Inl IntegrityError"
proof -
  have idx: "get_monitor_index (sample_base_db\<lparr>indices := []\<rparr>)
      (edc_index_id (sample_data (Fin 120))) = None"
    by (simp add: get_monitor_index_def db_get_def)
  have fresh: "get_environment_data (sample_base_db\<lparr>indices := []\<rparr>) ''R1'' = None"
    by (simp add: get_environment_data_def db_get_def sample_base_db_def)
  have dev: "get_monitor_device (sample_base_db\<lparr>indices := []\<rparr>)
      (edc_device_id (sample_data (Fin 120))) \<noteq> None"
    by (simp add: get_monitor_device_def db_get_def sample_base_db_def sample_data_def
        sample_device_def)
  have ar: "db_get area_id (areas (sample_base_db\<lparr>indices := []\<rparr>))
      (edc_area_id (sample_data (Fin 120))) \<noteq> None"
    by (simp add: db_get_def sample_base_db_def sample_data_def sample_area_def)
  have "create_environment_data sample_fmt (sample_base_db\<lparr>indices := []\<rparr>) 7
      (sample_data (Fin 120)) = Inl IntegrityError"
    using idx by (intro create_environment_data_no_indicator [where did = "''R1''"])
      (simp_all add: sample_data_def is_finite_def)
  with idx fresh dev ar show ?thesis by simp
qed

text \<open>
  C1, amended. Let a reading have an identifier that is not yet stored, a finite value,
  and an existing device and area. When its indicator exists the reading is persisted as
  the row \<open>r\<close> below: its abnormal flag is 1 exactly when its value is greater than the
  indicator's upper threshold or less than its lower threshold; when abnormal, the stored
  reason contains the text of the value and the text of the violated bound (the upper
  threshold when that is exceeded, the lower one otherwise); when not abnormal the flag
  is 0 and there is no reason. When the indicator of a reading with a finite value does
  not exist, the reading is not persisted: the call fails with \<open>IntegrityError\<close>.
\<close>
theorem C1_anomaly_classification:
  "(edc_data_id data = Some did \<and> get_environment_data db did = None
      \<and> is_finite (edc_monitor_value data)
      \<and> get_monitor_index db (edc_index_id data) = Some i
      \<and> get_monitor_device db (edc_device_id data) \<noteq> None
      \<and> db_get area_id (areas db) (edc_area_id data) \<noteq> None \<longrightarrow>
      (let v = edc_monitor_value data;
           r = \<lparr>data_id = did,
                data_index_id = edc_index_id data,
                data_device_id = edc_device_id data,
                collect_time = edc_collect_time data,
                monitor_value = v,
                data_area_id = edc_area_id data,
                data_quality = edc_data_quality data,
                is_abnormal = (if float_gt v (upper_threshold i) \<or> float_lt v (lower_threshold i)
                               then 1 else 0),
                abnormal_reason =
                  (if float_gt v (upper_threshold i)
                   then Some (REASON_HEAD @ fmt v @ REASON_UPPER @ fmt (upper_threshold i))
                   else if float_lt v (lower_threshold i)
                   then Some (REASON_HEAD @ fmt v @ REASON_LOWER @ fmt (lower_threshold i))
                   else None),
                audit_status = UNAUDITED,
                data_created_at = Some now,
                data_updated_at = Some now\<rparr>
       in create_environment_data fmt db now data = Inr (db\<lparr>readings := readings db @ [r]\<rparr>, r)
          \<and> get_environment_data (db\<lparr>readings := readings db @ [r]\<rparr>) did = Some r
          \<and> (is_abnormal r = 1 \<longleftrightarrow>
                float_gt v (upper_threshold i) \<or> float_lt v (lower_threshold i))
          \<and> (is_abnormal r = 1 \<longrightarrow>
                (\<exists>text. abnormal_reason r = Some text
                   \<and> sublist (fmt v) text
                   \<and> sublist (fmt (if float_gt v (upper_threshold i)
                                    then upper_threshold i else lower_threshold i)) text))
          \<and> (is_abnormal r \<noteq> 1 \<longrightarrow> is_abnormal r = 0 \<and> abnormal_reason r = None)))
   \<and> (edc_data_id data = Some did \<and> is_finite (edc_monitor_value data)
        \<and> get_monitor_index db (edc_index_id data) = None \<longrightarrow>
        create_environment_data fmt db now data = Inl IntegrityError)"
proof (intro conjI impI)
  assume h: "edc_data_id data = Some did \<and> get_environment_data db did = None
      \<and> is_finite (edc_monitor_value data)
      \<and> get_monitor_index db (edc_index_id data) = Some i
      \<and> get_monitor_device db (edc_device_id data) \<noteq> None
      \<and> db_get area_id (areas db) (edc_area_id data) \<noteq> None"
  define v where "v = edc_monitor_value data"
  define r where "r = \<lparr>data_id = did,
                data_index_id = edc_index_id data,
                data_device_id = edc_device_id data,
                collect_time = edc_collect_time data,
                monitor_value = v,
                data_area_id = edc_area_id data,
                data_quality = edc_data_quality data,
                is_abnormal = (if float_gt v (upper_threshold i) \<or> float_lt v (lower_threshold i)
                               then 1 else 0 :: int),
                abnormal_reason =
                  (if float_gt v (upper_threshold i)
                   then Some (REASON_HEAD @ fmt v @ REASON_UPPER @ fmt (upper_threshold i))
                   else if float_lt v (lower_threshold i)
                   then Some (REASON_HEAD @ fmt v @ REASON_LOWER @ fmt (lower_threshold i))
                   else None),
                audit_status = UNAUDITED,
                data_created_at = Some now,
                data_updated_at = Some now\<rparr>"
  have idx: "get_monitor_index db (edc_index_id data) = Some i"
    using h by simp
  have row: "reading_row fmt db now data did = r"
    unfolding r_def v_def by (rule reading_row_known_indicator [OF idx])
  have res: "create_environment_data fmt db now data = Inr (db\<lparr>readings := readings db @ [r]\<rparr>, r)"
    using h create_environment_data_ok [of data did db fmt now] by (simp add: row)
  have key: "data_id r = did"
    by (simp add: r_def)
  have got: "get_environment_data (db\<lparr>readings := readings db @ [r]\<rparr>) did = Some r"
    using h get_after_insert_reading [of db r] by (simp add: key)
  have flag: "is_abnormal r = 1 \<longleftrightarrow>
      float_gt v (upper_threshold i) \<or> float_lt v (lower_threshold i)"
    by (simp add: r_def)
  have reason: "is_abnormal r = 1 \<longrightarrow>
                (\<exists>text. abnormal_reason r = Some text
                   \<and> sublist (fmt v) text
                   \<and> sublist (fmt (if float_gt v (upper_threshold i)
                                    then upper_threshold i else lower_threshold i)) text)"
    by (simp add: r_def reason_contains_value reason_contains_bound)
  have normal: "is_abnormal r \<noteq> 1 \<longrightarrow> is_abnormal r = 0 \<and> abnormal_reason r = None"
    by (simp add: r_def)
  show "let v = edc_monitor_value data;
           r = \<lparr>data_id = did,
                data_index_id = edc_index_id data,
                data_device_id = edc_device_id data,
                collect_time = edc_collect_time data,
                monitor_value = v,
                data_area_id = edc_area_id data,
                data_quality = edc_data_quality data,
                is_abnormal = (if float_gt v (upper_threshold i) \<or> float_lt v (lower_threshold i)
                               then 1 else 0),
                abnormal_reason =
                  (if float_gt v (upper_threshold i)
                   then Some (REASON_HEAD @ fmt v @ REASON_UPPER @ fmt (upper_threshold i))
                   else if float_lt v (lower_threshold i)
                   then Some (REASON_HEAD @ fmt v @ REASON_LOWER @ fmt (lower_threshold i))
                   else None),
                audit_status = UNAUDITED,
                data_created_at = Some now,
                data_updated_at = Some now\<rparr>
       in create_environment_data fmt db now data = Inr (db\<lparr>readings := readings db @ [r]\<rparr>, r)
          \<and> get_environment_data (db\<lparr>readings := readings db @ [r]\<rparr>) did = Some r
          \<and> (is_abnormal r = 1 \<longleftrightarrow>
                float_gt v (upper_threshold i) \<or> float_lt v (lower_threshold i))
          \<and> (is_abnormal r = 1 \<longrightarrow>
                (\<exists>text. abnormal_reason r = Some text
                   \<and> sublist (fmt v) text
                   \<and> sublist (fmt (if float_gt v (upper_threshold i)
                                    then upper_threshold i else lower_threshold i)) text))
          \<and> (is_abnormal r \<noteq> 1 \<longrightarrow> is_abnormal r = 0 \<and> abnormal_reason r = None)"
    unfolding Let_def v_def [symmetric] r_def [symmetric]
    using res got flag reason normal by blast
next
  assume h: "edc_data_id data = Some did \<and> is_finite (edc_monitor_value data)
        \<and> get_monitor_index db (edc_index_id data) = None"
  then show "create_environment_data fmt db now data = Inl IntegrityError"
    using create_environment_data_no_indicator [of data did db fmt now] by simp
qed

text \<open>
  C1, amended, at a sample: indicator \<open>PM25\<close> with bounds 0 and 75 and a reading of 120;
  the same reading when the indicator table is empty.
\<close>
theorem C1_anomaly_classification_witness:
  "edc_data_id (sample_data (Fin 120)) = Some ''R1''
   \<and> get_environment_data sample_base_db ''R1'' = None
   \<and> is_finite (edc_monitor_value (sample_data (Fin 120)))
   \<and> get_monitor_index sample_base_db (edc_index_id (sample_data (Fin 120))) = Some sample_index
   \<and> (\<exists>db' r. create_environment_data sample_fmt sample_base_db 7 (sample_data (Fin 120))
                 = Inr (db', r)
         \<and> get_environment_data db' ''R1'' = Some r
         \<and> is_abnormal r = 1
         \<and> (\<exists>text. abnormal_reason r = Some text \<and> sublist ''120.0'' text
                \<and> sublist ''75.0'' text))
   \<and> get_monitor_index (sample_base_db\<lparr>indices := []\<rparr>)
        (edc_index_id (sample_data (Fin 120))) = None
   \<and> create_environment_data sample_fmt (sample_base_db\<lparr>indices := []\<rparr>) 7
        (sample_data (Fin 120)) = Inl IntegrityError"
proof -
  have h1: "edc_data_id (sample_data (Fin 120)) = Some ''R1''"
    by (simp add: sample_data_def)
  have h2: "get_environment_data sample_base_db ''R1'' = None"
    by (simp add: get_environment_data_def db_get_def sample_base_db_def)
  have h3: "is_finite (edc_monitor_value (sample_data (Fin 120)))"
    by (simp add: sample_data_def is_finite_def)
  have h4: "get_monitor_index sample_base_db (edc_index_id (sample_data (Fin 120)))
      = Some sample_index"
    by (simp add: get_monitor_index_def db_get_def sample_base_db_def sample_data_def
        sample_index_def)
  have h5: "get_monitor_device sample_base_db (edc_device_id (sample_data (Fin 120))) \<noteq> None"
    by (simp add: get_monitor_device_def db_get_def sample_base_db_def sample_data_def
        sample_device_def)
  have h6: "db_get area_id (areas sample_base_db) (edc_area_id (sample_data (Fin 120))) \<noteq> None"
    by (simp add: db_get_def sample_base_db_def sample_data_def sample_area_def)
  have h7: "get_monitor_index (sample_base_db\<lparr>indices := []\<rparr>)
        (edc_index_id (sample_data (Fin 120))) = None"
    by (simp add: get_monitor_index_def db_get_def)
  have v: "edc_monitor_value (sample_data (Fin 120)) = Fin 120"
    by (simp add: sample_data_def)
  have gt: "float_gt (Fin 120) (upper_threshold sample_index)"
    by (simp add: float_gt_def sample_index_def)
  have f: "sample_fmt (Fin 120) = ''120.0''" "sample_fmt (upper_threshold sample_index) = ''75.0''"
    by (simp_all add: sample_fmt_def sample_index_def)
  have one: "\<exists>db' r. create_environment_data sample_fmt sample_base_db 7 (sample_data (Fin 120))
                 = Inr (db', r)
         \<and> get_environment_data db' ''R1'' = Some r
         \<and> is_abnormal r = 1
         \<and> (\<exists>text. abnormal_reason r = Some text \<and> sublist ''120.0'' text
                \<and> sublist ''75.0'' text)"
    using h1 h2 h3 h4 h5 h6
      C1_anomaly_classification [where data = "sample_data (Fin 120)" and did = "''R1''"
        and db = sample_base_db and i = sample_index and fmt = sample_fmt and now = 7]
    unfolding Let_def v by (simp add: gt f)
  have two: "create_environment_data sample_fmt (sample_base_db\<lparr>indices := []\<rparr>) 7
        (sample_data (Fin 120)) = Inl IntegrityError"
    using h1 h3 h7
      C1_anomaly_classification [where data = "sample_data (Fin 120)" and did = "''R1''"
        and db = "sample_base_db\<lparr>indices := []\<rparr>" and fmt = sample_fmt and now = 7]
    by blast
  show ?thesis
    using h1 h2 h3 h4 h7 one two by blast
qed

section \<open>Audit workflow\<close>

text \<open>
  C3. For a reading \<open>r\<close> that exists, \<^verbatim>\<open>update_data_audit_status\<close> stores \<open>r\<close> with its
  audit status set to the new status, its reason replaced exactly when a reason is
  supplied, and its update timestamp refreshed: every other field, the abnormal flag
  among them, is the one of \<open>r\<close>; every other reading and every other table are as
  before. No condition is put on the new status or on the old one. The endpoint
  returns the updated reading to a manager. When the reading does not exist the store
  is unchanged and the endpoint fails with status 404.
\<close>
theorem C3_set_audit_status:
  "(get_environment_data db did = Some r \<longrightarrow>
      (let r' = r\<lparr>audit_status := new_status,
                   abnormal_reason := (case new_reason of
                                         None \<Rightarrow> abnormal_reason r | Some x \<Rightarrow> Some x),
                   data_updated_at := Some now\<rparr>;
           db' = db\<lparr>readings := db_update data_id (readings db) did r'\<rparr>
       in update_data_audit_status db now did new_status new_reason = (db', Some r')
          \<and> is_abnormal r' = is_abnormal r
          \<and> get_environment_data db' did = Some r'
          \<and> (\<forall>other. other \<noteq> did \<longrightarrow>
                get_environment_data db' other = get_environment_data db other)
          \<and> (role_type u \<in> {ROLE_PARK_MANAGER, ROLE_SYS_ADMIN} \<longrightarrow>
                audit_environment_data db now u did new_status new_reason = Inr (db', r'))))
   \<and> (get_environment_data db did = None \<longrightarrow>
        update_data_audit_status db now did new_status new_reason = (db, None)
        \<and> (role_type u \<in> {ROLE_PARK_MANAGER, ROLE_SYS_ADMIN} \<longrightarrow>
             audit_environment_data db now u did new_status new_reason
               = Inl (HTTPException 404)))"
proof (intro conjI impI)
  assume found: "get_environment_data db did = Some r"
  define r' where "r' = r\<lparr>audit_status := new_status,
                   abnormal_reason := (case new_reason of
                                         None \<Rightarrow> abnormal_reason r | Some x \<Rightarrow> Some x),
                   data_updated_at := Some now\<rparr>"
  define db' where "db' = db\<lparr>readings := db_update data_id (readings db) did r'\<rparr>"
  have key: "data_id r' = did"
    using found db_get_Some_key [of data_id "readings db" did r]
    by (simp add: get_environment_data_def r'_def)
  have upd: "update_data_audit_status db now did new_status new_reason = (db', Some r')"
    using found
    by (cases new_reason) (simp_all add: update_data_audit_status_def Let_def r'_def db'_def)
  have got: "get_environment_data db' did = Some r'"
    using found key by (simp add: get_environment_data_def db'_def db_get_update_same)
  have frame: "\<forall>other. other \<noteq> did \<longrightarrow>
      get_environment_data db' other = get_environment_data db other"
    using key by (simp add: get_environment_data_def db'_def db_get_update_other)
  have api: "role_type u \<in> {ROLE_PARK_MANAGER, ROLE_SYS_ADMIN} \<longrightarrow>
      audit_environment_data db now u did new_status new_reason = Inr (db', r')"
    using upd by (simp add: audit_environment_data_def require_roles_ok)
  have flag: "is_abnormal r' = is_abnormal r"
    by (simp add: r'_def)
  show "let r' = r\<lparr>audit_status := new_status,
                   abnormal_reason := (case new_reason of
                                         None \<Rightarrow> abnormal_reason r | Some x \<Rightarrow> Some x),
                   data_updated_at := Some now\<rparr>;
           db' = db\<lparr>readings := db_update data_id (readings db) did r'\<rparr>
       in update_data_audit_status db now did new_status new_reason = (db', Some r')
          \<and> is_abnormal r' = is_abnormal r
          \<and> get_environment_data db' did = Some r'
          \<and> (\<forall>other. other \<noteq> did \<longrightarrow>
                get_environment_data db' other = get_environment_data db other)
          \<and> (role_type u \<in> {ROLE_PARK_MANAGER, ROLE_SYS_ADMIN} \<longrightarrow>
                audit_environment_data db now u did new_status new_reason = Inr (db', r'))"
    unfolding Let_def r'_def [symmetric] db'_def [symmetric]
    using upd flag got frame api by blast
next
  assume missing: "get_environment_data db did = None"
  then show "update_data_audit_status db now did new_status new_reason = (db, None)"
    by (simp add: update_data_audit_status_def)
next
  assume missing: "get_environment_data db did = None"
    and role: "role_type u \<in> {ROLE_PARK_MANAGER, ROLE_SYS_ADMIN}"
  then show "audit_environment_data db now u did new_status new_reason
               = Inl (HTTPException 404)"
    by (simp add: audit_environment_data_def update_data_audit_status_def require_roles_ok)
qed

text \<open>C3 at a sample: an abnormal, unaudited reading is set to audited with no reason.\<close>
theorem C3_set_audit_status_witness:
  "get_environment_data (empty_db\<lparr>readings := [sample_reading ''R1'' 1 0 QUALITY_FAIR 1]\<rparr>) ''R1''
     = Some (sample_reading ''R1'' 1 0 QUALITY_FAIR 1)
   \<and> role_type admin \<in> {ROLE_PARK_MANAGER, ROLE_SYS_ADMIN}
   \<and> audit_environment_data (empty_db\<lparr>readings := [sample_reading ''R1'' 1 0 QUALITY_FAIR 1]\<rparr>)
        9 admin ''R1'' AUDITED None
     = Inr (empty_db\<lparr>readings := [(sample_reading ''R1'' 1 0 QUALITY_FAIR 1)
                                      \<lparr>audit_status := AUDITED, data_updated_at := Some 9\<rparr>]\<rparr>,
            (sample_reading ''R1'' 1 0 QUALITY_FAIR 1)
              \<lparr>audit_status := AUDITED, data_updated_at := Some 9\<rparr>)
   \<and> get_environment_data (empty_db\<lparr>readings := [sample_reading ''R1'' 1 0 QUALITY_FAIR 1]\<rparr>) ''R2''
     = None
   \<and> audit_environment_data (empty_db\<lparr>readings := [sample_reading ''R1'' 1 0 QUALITY_FAIR 1]\<rparr>)
        9 admin ''R2'' AUDITED None
     = Inl (HTTPException 404)"
proof -
  have h1: "get_environment_data
      (empty_db\<lparr>readings := [sample_reading ''R1'' 1 0 QUALITY_FAIR 1]\<rparr>) ''R1''
     = Some (sample_reading ''R1'' 1 0 QUALITY_FAIR 1)"
    by (simp add: get_environment_data_def db_get_def sample_reading_def)
  have h2: "get_environment_data
      (empty_db\<lparr>readings := [sample_reading ''R1'' 1 0 QUALITY_FAIR 1]\<rparr>) ''R2'' = None"
    by (simp add: get_environment_data_def db_get_def sample_reading_def)
  have upd: "db_update data_id [sample_reading ''R1'' 1 0 QUALITY_FAIR 1] ''R1'' x = [x]" for x
    by (simp add: db_update_def sample_reading_def)
  show ?thesis
    using h1 h2 admin_is_manager
      C3_set_audit_status [where db = "empty_db\<lparr>readings := [sample_reading ''R1'' 1 0 QUALITY_FAIR 1]\<rparr>"
        and did = "''R1''" and r = "sample_reading ''R1'' 1 0 QUALITY_FAIR 1"
        and new_status = AUDITED and new_reason = None and now = 9 and u = admin]
      C3_set_audit_status [where db = "empty_db\<lparr>readings := [sample_reading ''R1'' 1 0 QUALITY_FAIR 1]\<rparr>"
        and did = "''R2''" and r = "sample_reading ''R1'' 1 0 QUALITY_FAIR 1"
        and new_status = AUDITED and new_reason = None and now = 9 and u = admin]
    by (simp add: Let_def upd)
qed

section \<open>Calibration ledger: recording a calibration\<close>

lemma create_calibration_record_unfold:
  "crc_record_id new_record = Some rid \<Longrightarrow>
   create_calibration_record db now new_record =
     (case insert_calibration_record db
             \<lparr>record_id = rid,
              rec_device_id = crc_device_id new_record,
              calibration_time = crc_calibration_time new_record,
              calibrator_id = crc_calibrator_id new_record,
              calibration_result = crc_calibration_result new_record,
              calibration_desc = crc_calibration_desc new_record,
              rec_created_at = Some now,
              rec_updated_at = Some now\<rparr> of
        Inl e \<Rightarrow> Inl e
      | Inr db' \<Rightarrow>
          Inr (db'\<lparr>devices :=
                    (case get_monitor_device db (crc_device_id new_record) of
                       None \<Rightarrow> devices db
                     | Some device \<Rightarrow>
                         db_update dev_id (devices db) (crc_device_id new_record)
                           (device\<lparr>last_calibration_time :=
                                      Some (crc_calibration_time new_record),
                                    dev_updated_at := Some now\<rparr>))\<rparr>,
               \<lparr>record_id = rid,
                rec_device_id = crc_device_id new_record,
                calibration_time = crc_calibration_time new_record,
                calibrator_id = crc_calibrator_id new_record,
                calibration_result = crc_calibration_result new_record,
                calibration_desc = crc_calibration_desc new_record,
                rec_created_at = Some now,
                rec_updated_at = Some now\<rparr>))"
  unfolding create_calibration_record_def
  by (simp only: Let_def option.case)

text \<open>
  C4, as stated, fails. With the calibrator stored, the identifier unused and the
  referenced device absent, the record is not persisted: the column \<^verbatim>\<open>device_id\<close> of the
  calibration record table is a foreign key that is not nullable, and the call fails with
  \<open>IntegrityError\<close>. The record is not persisted either when its identifier is already
  in the ledger, or when its calibrator is absent, although the device exists.
\<close>
theorem C4_counterexample:
  "crc_record_id sample_record = Some ''CR1''
   \<and> get_calibration_record (sample_base_db\<lparr>devices := []\<rparr>) ''CR1'' = None
   \<and> get_monitor_device (sample_base_db\<lparr>devices := []\<rparr>) (crc_device_id sample_record) = None
   \<and> db_get user_id (users (sample_base_db\<lparr>devices := []\<rparr>)) (crc_calibrator_id sample_record)
       \<noteq> None
   \<and> create_calibration_record (sample_base_db\<lparr>devices := []\<rparr>) 120 sample_record
       = Inl IntegrityError
   \<and> get_monitor_device sample_full_db (crc_device_id sample_record) \<noteq> None
   \<and> get_calibration_record sample_full_db ''CR1'' \<noteq> None
   \<and> create_calibration_record sample_full_db 120 sample_record = Inl IntegrityError
   \<and> get_calibration_record (sample_base_db\<lparr>users := []\<rparr>) ''CR1'' = None
   \<and> get_monitor_device (sample_base_db\<lparr>users := []\<rparr>) (crc_device_id sample_record) \<noteq> None
   \<and> db_get user_id (users (sample_base_db\<lparr>users := []\<rparr>)) (crc_calibrator_id sample_record)
       = None
   \<and> create_calibration_record (sample_base_db\<lparr>users := []\<rparr>) 120 sample_record
       = Inl IntegrityError"
  by (simp add: create_calibration_record_unfold [OF sample_record_fields(1)]
      insert_calibration_record_def sample_record_fields get_calibration_record_def
      get_monitor_device_def db_get_def sample_base_db_def sample_full_db_def
      sample_device_def sample_calibration_def admin_def)

text \<open>
  C4, amended. \<^verbatim>\<open>create_calibration_record\<close> with a record whose identifier is not yet
  in the ledger and whose device and calibrator exist persists the record \<open>r\<close> below,
  and in the same resulting store the device has its last calibration time set to the
  record's calibration time and its update timestamp refreshed; no other device changes.
  When the identifier is present, or the device or the calibrator is absent, the call
  fails with \<open>IntegrityError\<close> as a whole: there is no resulting store, so neither the
  record nor a change of a device is persisted.
\<close>
theorem C4_record_calibration:
  "(crc_record_id new_record = Some rid \<and> get_calibration_record db rid = None
      \<and> get_monitor_device db (crc_device_id new_record) = Some d
      \<and> db_get user_id (users db) (crc_calibrator_id new_record) \<noteq> None \<longrightarrow>
      (let r = \<lparr>record_id = rid,
                rec_device_id = crc_device_id new_record,
                calibration_time = crc_calibration_time new_record,
                calibrator_id = crc_calibrator_id new_record,
                calibration_result = crc_calibration_result new_record,
                calibration_desc = crc_calibration_desc new_record,
                rec_created_at = Some now,
                rec_updated_at = Some now\<rparr>;
           d' = d\<lparr>last_calibration_time := Some (crc_calibration_time new_record),
                  dev_updated_at := Some now\<rparr>;
           db' = db\<lparr>calibrations := calibrations db @ [r],
                    devices := db_update dev_id (devices db) (crc_device_id new_record) d'\<rparr>
       in create_calibration_record db now new_record = Inr (db', r)
          \<and> get_calibration_record db' rid = Some r
          \<and> get_monitor_device db' (crc_device_id new_record) = Some d'
          \<and> (\<forall>other. other \<noteq> crc_device_id new_record \<longrightarrow>
                get_monitor_device db' other = get_monitor_device db other)))
   \<and> (crc_record_id new_record = Some rid
        \<and> (get_calibration_record db rid \<noteq> None
           \<or> get_monitor_device db (crc_device_id new_record) = None
           \<or> db_get user_id (users db) (crc_calibrator_id new_record) = None) \<longrightarrow>
        create_calibration_record db now new_record = Inl IntegrityError)"
proof (intro conjI impI)
  assume h: "crc_record_id new_record = Some rid \<and> get_calibration_record db rid = None
      \<and> get_monitor_device db (crc_device_id new_record) = Some d
      \<and> db_get user_id (users db) (crc_calibrator_id new_record) \<noteq> None"
  define r where "r = \<lparr>record_id = rid,
                rec_device_id = crc_device_id new_record,
                calibration_time = crc_calibration_time new_record,
                calibrator_id = crc_calibrator_id new_record,
                calibration_result = crc_calibration_result new_record,
                calibration_desc = crc_calibration_desc new_record,
                rec_created_at = Some now,
                rec_updated_at = Some now\<rparr>"
  define d' where "d' = d\<lparr>last_calibration_time := Some (crc_calibration_time new_record),
                  dev_updated_at := Some now\<rparr>"
  define db' where "db' = db\<lparr>calibrations := calibrations db @ [r],
                    devices := db_update dev_id (devices db) (crc_device_id new_record) d'\<rparr>"
  have ins: "insert_calibration_record db r = Inr (db\<lparr>calibrations := calibrations db @ [r]\<rparr>)"
    using h by (intro insert_calibration_record_ok) (simp_all add: r_def)
  have res: "create_calibration_record db now new_record = Inr (db', r)"
    using h create_calibration_record_unfold [of new_record rid db now]
    by (simp add: r_def [symmetric] ins d'_def db'_def)
  have got: "get_calibration_record db' rid = Some r"
    using h by (simp add: get_calibration_record_def db'_def db_get_append r_def)
  have key: "dev_id d' = crc_device_id new_record"
    using h db_get_Some_key [of dev_id "devices db" "crc_device_id new_record" d]
    by (simp add: get_monitor_device_def d'_def)
  have dev: "get_monitor_device db' (crc_device_id new_record) = Some d'"
    using h key by (simp add: get_monitor_device_def db'_def db_get_update_same)
  have others: "\<forall>other. other \<noteq> crc_device_id new_record \<longrightarrow>
                get_monitor_device db' other = get_monitor_device db other"
    using key by (simp add: get_monitor_device_def db'_def db_get_update_other)
  show "let r = \<lparr>record_id = rid,
                rec_device_id = crc_device_id new_record,
                calibration_time = crc_calibration_time new_record,
                calibrator_id = crc_calibrator_id new_record,
                calibration_result = crc_calibration_result new_record,
                calibration_desc = crc_calibration_desc new_record,
                rec_created_at = Some now,
                rec_updated_at = Some now\<rparr>;
           d' = d\<lparr>last_calibration_time := Some (crc_calibration_time new_record),
                  dev_updated_at := Some now\<rparr>;
           db' = db\<lparr>calibrations := calibrations db @ [r],
                    devices := db_update dev_id (devices db) (crc_device_id new_record) d'\<rparr>
       in create_calibration_record db now new_record = Inr (db', r)
          \<and> get_calibration_record db' rid = Some r
          \<and> get_monitor_device db' (crc_device_id new_record) = Some d'
          \<and> (\<forall>other. other \<noteq> crc_device_id new_record \<longrightarrow>
                get_monitor_device db' other = get_monitor_device db other)"
    unfolding Let_def r_def [symmetric] d'_def [symmetric] db'_def [symmetric]
    using res got dev others by blast
next
  assume h: "crc_record_id new_record = Some rid
        \<and> (get_calibration_record db rid \<noteq> None
           \<or> get_monitor_device db (crc_device_id new_record) = None
           \<or> db_get user_id (users db) (crc_calibrator_id new_record) = None)"
  have "insert_calibration_record db
             \<lparr>record_id = rid,
              rec_device_id = crc_device_id new_record,
              calibration_time = crc_calibration_time new_record,
              calibrator_id = crc_calibrator_id new_record,
              calibration_result = crc_calibration_result new_record,
              calibration_desc = crc_calibration_desc new_record,
              rec_created_at = Some now,
              rec_updated_at = Some now\<rparr> = Inl IntegrityError"
    using h by (intro insert_calibration_record_refused) simp
  then show "create_calibration_record db now new_record = Inl IntegrityError"
    using h create_calibration_record_unfold [of new_record rid db now] by simp
qed

text \<open>
  C4, amended, at samples: a ledger entry for the stored device 1, and the same entry
  when the device table is empty.
\<close>
theorem C4_record_calibration_witness:
  "crc_record_id sample_record = Some ''CR1''
   \<and> get_calibration_record sample_base_db ''CR1'' = None
   \<and> get_monitor_device sample_base_db (crc_device_id sample_record)
       = Some (sample_device 1 (Some NORMAL) (Some 30) (Some 0) (Some 1))
   \<and> db_get user_id (users sample_base_db) (crc_calibrator_id sample_record) \<noteq> None
   \<and> (\<exists>db' r. create_calibration_record sample_base_db 120 sample_record = Inr (db', r)
         \<and> get_calibration_record db' ''CR1'' = Some r
         \<and> calibration_time r = 100
         \<and> get_monitor_device db' 1
             = Some (sample_device 1 (Some NORMAL) (Some 30) (Some 100) (Some 1)
                       \<lparr>dev_updated_at := Some 120\<rparr>))
   \<and> get_monitor_device (sample_base_db\<lparr>devices := []\<rparr>) (crc_device_id sample_record) = None
   \<and> create_calibration_record (sample_base_db\<lparr>devices := []\<rparr>) 120 sample_record
       = Inl IntegrityError"
proof -
  have dev: "sample_device 1 (Some NORMAL) (Some 30) (Some 0) (Some 1)
               \<lparr>last_calibration_time := Some 100, dev_updated_at := Some 120\<rparr>
             = sample_device 1 (Some NORMAL) (Some 30) (Some 100) (Some 1)
                 \<lparr>dev_updated_at := Some 120\<rparr>"
    by (simp add: sample_device_def)
  have none: "get_monitor_device (sample_base_db\<lparr>devices := []\<rparr>) (crc_device_id sample_record)
      = None"
    by (simp add: get_monitor_device_def db_get_def)
  have one: "\<exists>db' r. create_calibration_record sample_base_db 120 sample_record = Inr (db', r)
         \<and> get_calibration_record db' ''CR1'' = Some r
         \<and> calibration_time r = 100
         \<and> get_monitor_device db' 1
             = Some (sample_device 1 (Some NORMAL) (Some 30) (Some 100) (Some 1)
                       \<lparr>dev_updated_at := Some 120\<rparr>)"
    using C4_record_calibration [where new_record = sample_record and rid = "''CR1''"
        and db = sample_base_db and now = 120
        and d = "sample_device 1 (Some NORMAL) (Some 30) (Some 0) (Some 1)"]
    unfolding Let_def by (simp add: sample_record_fields sample_base_lookups dev)
  have two: "create_calibration_record (sample_base_db\<lparr>devices := []\<rparr>) 120 sample_record
       = Inl IntegrityError"
    using none
      C4_record_calibration [where new_record = sample_record and rid = "''CR1''"
        and db = "sample_base_db\<lparr>devices := []\<rparr>" and now = 120]
    by (simp add: sample_record_fields)
  show ?thesis
    using one two none by (simp add: sample_record_fields sample_base_lookups)
qed

section \<open>Partial update and the default audit status\<close>



section \<open>Duplicate identifiers on create\<close>

lemma api_create_monitor_index_conflict:
  "role_type u \<in> {ROLE_PARK_MANAGER, ROLE_SYS_ADMIN} \<Longrightarrow>
   get_monitor_index db (mic_index_id index) \<noteq> None \<Longrightarrow>
   api_create_monitor_index db now u index = Inl (HTTPException 400)"
  by (auto simp: api_create_monitor_index_def require_roles_ok)

lemma api_create_environment_data_conflict:
  "(case u of None \<Rightarrow> True | Some x \<Rightarrow> role_type x \<in> {ROLE_PARK_MANAGER, ROLE_SYS_ADMIN}) \<Longrightarrow>
   edc_data_id data = Some did \<Longrightarrow> did \<noteq> [] \<Longrightarrow> get_environment_data db did \<noteq> None \<Longrightarrow>
   api_create_environment_data fmt g db now u data = Inl (HTTPException 400)"
  by (cases u) (auto simp: api_create_environment_data_def require_roles_ok)

lemma api_create_calibration_record_duplicate:
  assumes "role_type u \<in> {ROLE_PARK_MANAGER, ROLE_SYS_ADMIN}"
    and "crc_record_id r = Some rid" and "rid \<noteq> []"
    and "get_calibration_record db rid \<noteq> None"
  shows "api_create_calibration_record g db now u r = Inl IntegrityError"
proof -
  have "create_calibration_record db now (r\<lparr>crc_record_id := Some rid\<rparr>) = Inl IntegrityError"
    using assms(4)
    by (simp add: create_calibration_record_unfold [of "r\<lparr>crc_record_id := Some rid\<rparr>" rid]
        insert_calibration_record_def)
  then show ?thesis
    using assms by (simp add: api_create_calibration_record_def require_roles_ok)
qed

text \<open>
  C7, evaluated on a store that holds an indicator, a device, an area, a user, a reading
  and a calibration record. Creating an indicator or a reading under an identifier that
  exists is refused with status 400 before any write. Creating a calibration record under
  an identifier that exists, for a device and a calibrator that exist, is not refused by
  the endpoint: the call reaches the insert, whose primary key violation surfaces as
  \<open>IntegrityError\<close>, which is not the status 400 of the other two.
\<close>
theorem C7_calibration_duplicate_not_conflict:
  "api_create_monitor_index sample_full_db 9 admin sample_index_create
     = Inl (HTTPException 400)
   \<and> api_create_environment_data sample_fmt ''ED_x'' sample_full_db 9 (Some admin)
       (sample_data (Fin 120))
     = Inl (HTTPException 400)
   \<and> get_monitor_device sample_full_db (crc_device_id sample_record) \<noteq> None
   \<and> db_get user_id (users sample_full_db) (crc_calibrator_id sample_record) \<noteq> None
   \<and> get_calibration_record sample_full_db ''CR1'' \<noteq> None
   \<and> crc_record_id sample_record = Some ''CR1''
   \<and> api_create_calibration_record ''CR_x'' sample_full_db 9 admin sample_record
     = Inl IntegrityError
   \<and> IntegrityError \<noteq> HTTPException 400"
proof -
  have a: "get_monitor_index sample_full_db (mic_index_id sample_index_create) \<noteq> None"
    using sample_full_lookups(1) by (simp add: sample_index_create_def)
  have "api_create_monitor_index sample_full_db 9 admin sample_index_create
      = Inl (HTTPException 400)"
    using admin_is_manager a by (rule api_create_monitor_index_conflict)
  moreover have "api_create_environment_data sample_fmt ''ED_x'' sample_full_db 9 (Some admin)
      (sample_data (Fin 120)) = Inl (HTTPException 400)"
    using admin_is_manager sample_full_lookups(2)
    by (intro api_create_environment_data_conflict [where did = "''R1''"])
      (simp_all add: sample_data_def)
  moreover have "api_create_calibration_record ''CR_x'' sample_full_db 9 admin sample_record
      = Inl IntegrityError"
    using admin_is_manager sample_full_lookups(3)
    by (intro api_create_calibration_record_duplicate [where rid = "''CR1''"])
      (simp_all add: sample_record_def)
  ultimately show ?thesis
    using sample_full_lookups by (simp add: sample_record_fields)
qed

section \<open>Sorting and filtering\<close>

lemma set_sort_desc: "set (sort_desc key xs) = set xs"
  by (simp add: sort_desc_def)

lemma mset_sort_desc: "mset (sort_desc key xs) = mset xs"
  by (simp add: sort_desc_def)

lemma length_sort_desc: "length (sort_desc key xs) = length xs"
  by (simp add: sort_desc_def)

lemma sorted_sort_desc: "sorted_wrt (\<lambda>x y. key x \<ge> key y) (sort_desc key xs)"
proof -
  have "sorted (map key (sort_key key (rev xs)))"
    by (rule sorted_sort_key)
  then have "sorted_wrt (\<lambda>x y. key x \<le> key y) (sort_key key (rev xs))"
    by (simp add: sorted_wrt_map)
  then show ?thesis
    by (simp add: sort_desc_def sorted_wrt_rev)
qed

lemma set_map_filter: "set (List.map_filter f xs) = {y. \<exists>x \<in> set xs. f x = Some y}"
  by (induction xs) (auto split: option.splits)

lemma length_map_filter: "length (List.map_filter f xs) = length (filter (\<lambda>x. f x \<noteq> None) xs)"
  by (simp add: List.map_filter_def)

lemma map_filter_all_None: "(\<And>x. x \<in> set xs \<Longrightarrow> f x = None) \<Longrightarrow> List.map_filter f xs = []"
  by (induction xs) auto

section \<open>Protected-area abnormal report\<close>

lemma core_protection_row_Some_iff:
  "core_protection_row db start_time iname r = Some row \<longleftrightarrow>
     (\<exists>mi dv a. get_monitor_index db (data_index_id r) = Some mi
        \<and> get_monitor_device db (data_device_id r) = Some dv
        \<and> db_get area_id (areas db) (data_area_id r) = Some a
        \<and> is_abnormal r = 1 \<and> collect_time r \<ge> start_time
        \<and> index_name mi = iname \<and> area_type a = CORE_PROTECTION
        \<and> row = \<lparr>cr_data_id = data_id r, cr_collect_time = collect_time r,
                   cr_monitor_value = monitor_value r,
                   cr_upper_threshold = upper_threshold mi,
                   cr_lower_threshold = lower_threshold mi,
                   cr_device_id = dev_id dv, cr_device_type = dev_type dv,
                   run_status = status dv, cr_area_name = area_name a,
                   cr_abnormal_reason = abnormal_reason r\<rparr>)"
  by (auto simp: core_protection_row_def split: option.splits)

lemma core_protection_row_unknown_name:
  "\<forall>mi \<in> set (indices db). index_name mi \<noteq> iname \<Longrightarrow>
   core_protection_row db start_time iname r = None"
proof (cases "get_monitor_index db (data_index_id r)")
  case None
  then show ?thesis by (simp add: core_protection_row_def)
next
  case (Some mi)
  then have "mi \<in> set (indices db)"
    using db_get_Some_key [of index_id "indices db" "data_index_id r" mi]
    by (simp add: get_monitor_index_def)
  moreover assume "\<forall>mi \<in> set (indices db). index_name mi \<noteq> iname"
  ultimately show ?thesis
    using Some by (auto simp: core_protection_row_def split: option.splits)
qed

lemma sample_core_lookups:
  "get_monitor_index sample_core_db ''PM25'' = Some sample_index"
  "get_monitor_device sample_core_db 1 = Some (sample_device 1 (Some NORMAL) (Some 30) None (Some 1))"
  "get_monitor_device sample_core_db 99 = None"
  "db_get area_id (areas sample_core_db) 1 = Some (sample_area 1 CORE_PROTECTION)"
  by (simp_all add: sample_core_db_def get_monitor_index_def get_monitor_device_def db_get_def
      sample_index_def sample_device_def sample_area_def)

text \<open>
  C8, as stated, fails. At call time day 10 with a window of 30 days, the reading
  \<open>R1\<close>, collected on day 11, after the call time, is returned although it lies outside
  the window that ends at the call time; the reading \<open>R2\<close>, abnormal, collected on day
  9, of the named indicator and of a core protection area, is not returned, because its
  device does not exist and the report joins the device table. The report returns
  \<open>R1\<close> and \<open>R3\<close>; the readings that the claim describes are \<open>R2\<close> and \<open>R3\<close>.
\<close>
theorem C8_counterexample:
  "map cr_data_id (query_core_protection_abnormal_data sample_core_db (10 * DAY) ''PM2.5'' 30)
     = [''R1'', ''R3'']
   \<and> map data_id (spec_core_protection_abnormal sample_core_db (10 * DAY) ''PM2.5'' 30)
     = [''R2'', ''R3'']"
proof -
  have rows: "readings sample_core_db =
      [sample_reading ''R1'' 1 (11 * DAY) QUALITY_FAIR 1,
       sample_reading ''R2'' 99 (9 * DAY) QUALITY_FAIR 1,
       sample_reading ''R3'' 1 (8 * DAY) QUALITY_FAIR 1]"
    by (simp add: sample_core_db_def)
  have f: "data_index_id (sample_reading i dv t q fl) = ''PM25''"
    "data_device_id (sample_reading i dv t q fl) = dv"
    "data_area_id (sample_reading i dv t q fl) = 1"
    "is_abnormal (sample_reading i dv t q fl) = fl"
    "collect_time (sample_reading i dv t q fl) = t"
    "data_id (sample_reading i dv t q fl) = i" for i dv t q fl
    by (simp_all add: sample_reading_def)
  have n: "index_name sample_index = ''PM2.5''" "area_type (sample_area 1 CORE_PROTECTION) = CORE_PROTECTION"
    by (simp_all add: sample_index_def sample_area_def)
  show ?thesis
    by (simp add: query_core_protection_abnormal_data_def spec_core_protection_abnormal_def
        core_protection_row_def rows f n sample_core_lookups sort_desc_def timedelta_def DAY_def)
qed

text \<open>
  C8, amended. The protected-area abnormal report returns exactly one row for each
  reading that is flagged abnormal, was collected at or after the call time minus the
  day count (a later collection time, beyond the call time, is not excluded), whose
  indicator exists and has the given name, whose device exists, and whose area exists
  and is a core protection area; the row carries the reading, the indicator's
  thresholds, the device's type and status and the area's name. The rows are ordered by
  collection time, descending. When no indicator has the given name the result is the
  empty list, not an error.
\<close>
theorem C8_core_protection_report:
  "(row \<in> set (query_core_protection_abnormal_data db now iname days) \<longleftrightarrow>
      (\<exists>r \<in> set (readings db). \<exists>mi dv a.
          get_monitor_index db (data_index_id r) = Some mi
        \<and> get_monitor_device db (data_device_id r) = Some dv
        \<and> db_get area_id (areas db) (data_area_id r) = Some a
        \<and> is_abnormal r = 1 \<and> collect_time r \<ge> now - days * DAY
        \<and> index_name mi = iname \<and> area_type a = CORE_PROTECTION
        \<and> row = \<lparr>cr_data_id = data_id r, cr_collect_time = collect_time r,
                   cr_monitor_value = monitor_value r,
                   cr_upper_threshold = upper_threshold mi,
                   cr_lower_threshold = lower_threshold mi,
                   cr_device_id = dev_id dv, cr_device_type = dev_type dv,
                   run_status = status dv, cr_area_name = area_name a,
                   cr_abnormal_reason = abnormal_reason r\<rparr>))
   \<and> length (query_core_protection_abnormal_data db now iname days)
       = length (filter (\<lambda>r. core_protection_row db (now - days * DAY) iname r \<noteq> None)
                  (readings db))
   \<and> sorted_wrt (\<lambda>x y. cr_collect_time x \<ge> cr_collect_time y)
        (query_core_protection_abnormal_data db now iname days)
   \<and> ((\<forall>mi \<in> set (indices db). index_name mi \<noteq> iname) \<longrightarrow>
        query_core_protection_abnormal_data db now iname days = [])"
proof (intro conjI impI)
  show "row \<in> set (query_core_protection_abnormal_data db now iname days) \<longleftrightarrow>
      (\<exists>r \<in> set (readings db). \<exists>mi dv a.
          get_monitor_index db (data_index_id r) = Some mi
        \<and> get_monitor_device db (data_device_id r) = Some dv
        \<and> db_get area_id (areas db) (data_area_id r) = Some a
        \<and> is_abnormal r = 1 \<and> collect_time r \<ge> now - days * DAY
        \<and> index_name mi = iname \<and> area_type a = CORE_PROTECTION
        \<and> row = \<lparr>cr_data_id = data_id r, cr_collect_time = collect_time r,
                   cr_monitor_value = monitor_value r,
                   cr_upper_threshold = upper_threshold mi,
                   cr_lower_threshold = lower_threshold mi,
                   cr_device_id = dev_id dv, cr_device_type = dev_type dv,
                   run_status = status dv, cr_area_name = area_name a,
                   cr_abnormal_reason = abnormal_reason r\<rparr>)"
    by (simp add: query_core_protection_abnormal_data_def set_sort_desc set_map_filter
        core_protection_row_Some_iff timedelta_def)
  show "length (query_core_protection_abnormal_data db now iname days)
       = length (filter (\<lambda>r. core_protection_row db (now - days * DAY) iname r \<noteq> None)
                  (readings db))"
    by (simp add: query_core_protection_abnormal_data_def length_sort_desc length_map_filter
        timedelta_def)
  show "sorted_wrt (\<lambda>x y. cr_collect_time x \<ge> cr_collect_time y)
        (query_core_protection_abnormal_data db now iname days)"
    by (simp add: query_core_protection_abnormal_data_def sorted_sort_desc)
next
  assume "\<forall>mi \<in> set (indices db). index_name mi \<noteq> iname"
  then have "List.map_filter (core_protection_row db (now - timedelta days) iname) (readings db) = []"
    by (intro map_filter_all_None core_protection_row_unknown_name)
  then show "query_core_protection_abnormal_data db now iname days = []"
    by (simp add: query_core_protection_abnormal_data_def sort_desc_def)
qed

text \<open>C8, amended, at the sample store: an unknown name, and the row of \<open>R3\<close>.\<close>
theorem C8_core_protection_report_witness:
  "''ozone'' \<notin> set (map index_name (indices sample_core_db))
   \<and> query_core_protection_abnormal_data sample_core_db (10 * DAY) ''ozone'' 30 = []
   \<and> sample_reading ''R3'' 1 (8 * DAY) QUALITY_FAIR 1 \<in> set (readings sample_core_db)
   \<and> \<lparr>cr_data_id = ''R3'', cr_collect_time = 8 * DAY, cr_monitor_value = Fin 120,
       cr_upper_threshold = Fin 75, cr_lower_threshold = Fin 0, cr_device_id = 1,
       cr_device_type = ''sensor'', run_status = Some NORMAL, cr_area_name = ''valley'',
       cr_abnormal_reason = None\<rparr>
     \<in> set (query_core_protection_abnormal_data sample_core_db (10 * DAY) ''PM2.5'' 30)"
proof -
  have h: "\<forall>mi \<in> set (indices sample_core_db). index_name mi \<noteq> ''ozone''"
    by (simp add: sample_core_db_def sample_index_def)
  have h': "''ozone'' \<notin> set (map index_name (indices sample_core_db))"
    by (simp add: sample_core_db_def sample_index_def)
  have r: "sample_reading ''R3'' 1 (8 * DAY) QUALITY_FAIR 1 \<in> set (readings sample_core_db)"
    by (simp add: sample_core_db_def)
  have ex: "\<exists>r \<in> set (readings sample_core_db). \<exists>mi dv a.
          get_monitor_index sample_core_db (data_index_id r) = Some mi
        \<and> get_monitor_device sample_core_db (data_device_id r) = Some dv
        \<and> db_get area_id (areas sample_core_db) (data_area_id r) = Some a
        \<and> is_abnormal r = 1 \<and> collect_time r \<ge> 10 * DAY - 30 * DAY
        \<and> index_name mi = ''PM2.5'' \<and> area_type a = CORE_PROTECTION
        \<and> \<lparr>cr_data_id = ''R3'', cr_collect_time = 8 * DAY, cr_monitor_value = Fin 120,
       cr_upper_threshold = Fin 75, cr_lower_threshold = Fin 0, cr_device_id = 1,
       cr_device_type = ''sensor'', run_status = Some NORMAL, cr_area_name = ''valley'',
       cr_abnormal_reason = None\<rparr> = \<lparr>cr_data_id = data_id r, cr_collect_time = collect_time r,
                   cr_monitor_value = monitor_value r,
                   cr_upper_threshold = upper_threshold mi,
                   cr_lower_threshold = lower_threshold mi,
                   cr_device_id = dev_id dv, cr_device_type = dev_type dv,
                   run_status = status dv, cr_area_name = area_name a,
                   cr_abnormal_reason = abnormal_reason r\<rparr>"
    apply (rule bexI [OF _ r])
    apply (rule exI [of _ sample_index])
    apply (rule exI [of _ "sample_device 1 (Some NORMAL) (Some 30) None (Some 1)"])
    apply (rule exI [of _ "sample_area 1 CORE_PROTECTION"])
    apply (simp add: sample_reading_def sample_core_lookups)
    apply (simp add: sample_index_def sample_device_def sample_area_def DAY_def)
    done
  show ?thesis
    using h h' r ex
      C8_core_protection_report [where db = sample_core_db and now = "10 * DAY"
        and iname = "''ozone''" and days = 30]
      C8_core_protection_report [where db = sample_core_db and now = "10 * DAY"
        and iname = "''PM2.5''" and days = 30
        and row = "\<lparr>cr_data_id = ''R3'', cr_collect_time = 8 * DAY, cr_monitor_value = Fin 120,
       cr_upper_threshold = Fin 75, cr_lower_threshold = Fin 0, cr_device_id = 1,
       cr_device_type = ''sensor'', run_status = Some NORMAL, cr_area_name = ''valley'',
       cr_abnormal_reason = None\<rparr>"]
    by blast
qed

section \<open>Device quality rate\<close>

lemma quality_rate_row_eq:
  "quality_rate_row db start_time d =
     (case deployment_area_id d of
        None \<Rightarrow> None
      | Some aid \<Rightarrow>
          (case db_get area_id (areas db) aid of
             None \<Rightarrow> None
           | Some a \<Rightarrow>
               Some \<lparr>qr_device_id = dev_id d, qr_device_type = dev_type d,
                     qr_area_name = area_name a,
                     total_data_count = int (length (window_readings db start_time d)),
                     qualified_count =
                       int (length (filter (\<lambda>r. data_quality r = QUALITY_EXCELLENT
                                                   \<or> data_quality r = QUALITY_GOOD)
                                      (window_readings db start_time d))),
                     qualified_rate =
                       (if window_readings db start_time d = [] then 0
                        else py_round2
                               (to_double
                                  (to_double
                                     (to_double
                                        (of_int (int (length
                                           (filter (\<lambda>r. data_quality r = QUALITY_EXCELLENT
                                                        \<or> data_quality r = QUALITY_GOOD)
                                              (window_readings db start_time d))))) * 100)
                                   / to_double
                                       (of_int (int (length
                                          (window_readings db start_time d)))))))\<rparr>))"
  by (simp add: quality_rate_row_def quality_rate_def Let_def split: option.splits)

lemma quality_rate_1_3: "quality_rate 1 3 = 2345390243441541 / 70368744177664"
  by code_simp

lemma quality_rate_0_0: "quality_rate 0 0 = 0"
  by (simp add: quality_rate_def)

lemma QUALITY_distinct:
  "QUALITY_FAIR \<noteq> QUALITY_EXCELLENT" "QUALITY_FAIR \<noteq> QUALITY_GOOD"
  by (simp_all add: QUALITY_FAIR_def QUALITY_EXCELLENT_def QUALITY_GOOD_def)

text \<open>
  C6, as stated, fails. Device 1 is stored and has no deployment area: the report has no
  row for it. Device 2 has three readings in the window, one of them graded excellent:
  its rate is the float nearest to 33.33, not 100 times 1 divided by 3.
\<close>
theorem C6_counterexample:
  "sample_device 1 (Some NORMAL) (Some 30) None None \<in> set (devices sample_quality_db)
   \<and> dev_id (sample_device 1 (Some NORMAL) (Some 30) None None) = 1
   \<and> map qr_device_id (get_device_data_quality_rate sample_quality_db (10 * DAY) 90) = [2, 3]
   \<and> map total_data_count (get_device_data_quality_rate sample_quality_db (10 * DAY) 90) = [3, 0]
   \<and> map qualified_count (get_device_data_quality_rate sample_quality_db (10 * DAY) 90) = [1, 0]
   \<and> map qualified_rate (get_device_data_quality_rate sample_quality_db (10 * DAY) 90)
       = [2345390243441541 / 70368744177664, 0]
   \<and> (2345390243441541 / 70368744177664 :: rat) \<noteq> 100 * 1 / 3"
proof -
  have f: "data_device_id (sample_reading i dv t q fl) = dv"
    "collect_time (sample_reading i dv t q fl) = t"
    "data_quality (sample_reading i dv t q fl) = q" for i dv t q fl
    by (simp_all add: sample_reading_def)
  have d: "dev_id (sample_device i st cyc lc aid) = i"
    "deployment_area_id (sample_device i st cyc lc aid) = aid" for i st cyc lc aid
    by (simp_all add: sample_device_def)
  have a: "db_get area_id (areas sample_quality_db) 1 = Some (sample_area 1 CORE_PROTECTION)"
    by (simp add: sample_quality_db_def db_get_def sample_area_def)
  have t: "(10::int) * DAY - timedelta 90 \<le> 9 * DAY"
    by (simp add: timedelta_def DAY_def)
  have w2: "window_readings sample_quality_db (10 * DAY - timedelta 90)
              (sample_device 2 (Some NORMAL) (Some 30) None (Some 1))
            = readings sample_quality_db"
    using t by (simp add: window_readings_def sample_quality_db_def f d)
  have w3: "window_readings sample_quality_db (10 * DAY - timedelta 90)
              (sample_device 3 (Some NORMAL) (Some 30) None (Some 1)) = []"
    by (simp add: window_readings_def sample_quality_db_def f d)
  have rs: "readings sample_quality_db =
      [sample_reading ''Q1'' 2 (9 * DAY) QUALITY_EXCELLENT 0,
       sample_reading ''Q2'' 2 (9 * DAY) QUALITY_FAIR 0,
       sample_reading ''Q3'' 2 (9 * DAY) QUALITY_FAIR 0]"
    by (simp add: sample_quality_db_def)
  have ds: "devices sample_quality_db =
      [sample_device 1 (Some NORMAL) (Some 30) None None,
       sample_device 2 (Some NORMAL) (Some 30) None (Some 1),
       sample_device 3 (Some NORMAL) (Some 30) None (Some 1)]"
    by (simp add: sample_quality_db_def)
  have row1: "quality_rate_row sample_quality_db (10 * DAY - timedelta 90)
                (sample_device 1 (Some NORMAL) (Some 30) None None) = None"
    by (simp add: quality_rate_row_def d)
  have row2: "quality_rate_row sample_quality_db (10 * DAY - timedelta 90)
                (sample_device 2 (Some NORMAL) (Some 30) None (Some 1))
      = Some \<lparr>qr_device_id = 2, qr_device_type = ''sensor'', qr_area_name = ''valley'',
          total_data_count = 3, qualified_count = 1,
          qualified_rate = 2345390243441541 / 70368744177664\<rparr>"
    unfolding quality_rate_row_def Let_def w2 rs
    by (simp add: d a f QUALITY_distinct quality_rate_1_3)
      (simp add: sample_device_def sample_area_def)
  have row3: "quality_rate_row sample_quality_db (10 * DAY - timedelta 90)
                (sample_device 3 (Some NORMAL) (Some 30) None (Some 1))
      = Some \<lparr>qr_device_id = 3, qr_device_type = ''sensor'', qr_area_name = ''valley'',
          total_data_count = 0, qualified_count = 0, qualified_rate = 0\<rparr>"
    unfolding quality_rate_row_def Let_def w3
    by (simp add: d a quality_rate_0_0) (simp add: sample_device_def sample_area_def)
  have rows: "List.map_filter (quality_rate_row sample_quality_db (10 * DAY - timedelta 90))
                (devices sample_quality_db)
      = [\<lparr>qr_device_id = 2, qr_device_type = ''sensor'', qr_area_name = ''valley'',
          total_data_count = 3, qualified_count = 1,
          qualified_rate = 2345390243441541 / 70368744177664\<rparr>,
         \<lparr>qr_device_id = 3, qr_device_type = ''sensor'', qr_area_name = ''valley'',
          total_data_count = 0, qualified_count = 0, qualified_rate = 0\<rparr>]"
    by (simp add: ds row1 row2 row3)
  have "get_device_data_quality_rate sample_quality_db (10 * DAY) 90
      = [\<lparr>qr_device_id = 2, qr_device_type = ''sensor'', qr_area_name = ''valley'',
          total_data_count = 3, qualified_count = 1,
          qualified_rate = 2345390243441541 / 70368744177664\<rparr>,
         \<lparr>qr_device_id = 3, qr_device_type = ''sensor'', qr_area_name = ''valley'',
          total_data_count = 0, qualified_count = 0, qualified_rate = 0\<rparr>]"
    by (simp add: get_device_data_quality_rate_def rows sort_desc_def)
  then show ?thesis
    by (simp add: ds d)
qed

text \<open>
  C6, amended. The device quality report has exactly one row for each device whose
  deployment area exists, and no row for a device without a deployment area or whose
  area does not exist. The row of a device carries its identifier, its type, the name of
  its area, the number of its readings collected at or after the call time minus the
  day count, and the number of those graded excellent or good. When the device has no
  such reading both counts are 0 and the rate is exactly 0; otherwise the rate is the
  binary64 quotient of the qualified count times 100.0 by the total count, rounded to two
  decimals. The rows are ordered by rate, descending.
\<close>
theorem C6_device_quality_rate:
  "(row \<in> set (get_device_data_quality_rate db now days) \<longleftrightarrow>
      (\<exists>d \<in> set (devices db). quality_rate_row db (now - days * DAY) d = Some row))
   \<and> length (get_device_data_quality_rate db now days)
       = length (filter (\<lambda>d. quality_rate_row db (now - days * DAY) d \<noteq> None) (devices db))
   \<and> sorted_wrt (\<lambda>x y. qualified_rate x \<ge> qualified_rate y)
        (get_device_data_quality_rate db now days)
   \<and> quality_rate_row db (now - days * DAY) d =
     (case deployment_area_id d of
        None \<Rightarrow> None
      | Some aid \<Rightarrow>
          (case db_get area_id (areas db) aid of
             None \<Rightarrow> None
           | Some a \<Rightarrow>
               Some \<lparr>qr_device_id = dev_id d, qr_device_type = dev_type d,
                     qr_area_name = area_name a,
                     total_data_count = int (length (window_readings db (now - days * DAY) d)),
                     qualified_count =
                       int (length (filter (\<lambda>r. data_quality r = QUALITY_EXCELLENT
                                                   \<or> data_quality r = QUALITY_GOOD)
                                      (window_readings db (now - days * DAY) d))),
                     qualified_rate =
                       (if window_readings db (now - days * DAY) d = [] then 0
                        else py_round2
                               (to_double
                                  (to_double
                                     (to_double
                                        (of_int (int (length
                                           (filter (\<lambda>r. data_quality r = QUALITY_EXCELLENT
                                                        \<or> data_quality r = QUALITY_GOOD)
                                              (window_readings db (now - days * DAY) d))))) * 100)
                                   / to_double
                                       (of_int (int (length
                                          (window_readings db (now - days * DAY) d)))))))\<rparr>))
   \<and> window_readings db (now - days * DAY) d
       = filter (\<lambda>r. data_device_id r = dev_id d \<and> collect_time r \<ge> now - days * DAY)
           (readings db)"
proof (intro conjI)
  show "row \<in> set (get_device_data_quality_rate db now days) \<longleftrightarrow>
      (\<exists>d \<in> set (devices db). quality_rate_row db (now - days * DAY) d = Some row)"
    by (simp add: get_device_data_quality_rate_def set_sort_desc set_map_filter timedelta_def)
  show "length (get_device_data_quality_rate db now days)
       = length (filter (\<lambda>d. quality_rate_row db (now - days * DAY) d \<noteq> None) (devices db))"
    by (simp add: get_device_data_quality_rate_def length_sort_desc length_map_filter
        timedelta_def)
  show "sorted_wrt (\<lambda>x y. qualified_rate x \<ge> qualified_rate y)
        (get_device_data_quality_rate db now days)"
    by (simp add: get_device_data_quality_rate_def sorted_sort_desc)
  show "window_readings db (now - days * DAY) d
       = filter (\<lambda>r. data_device_id r = dev_id d \<and> collect_time r \<ge> now - days * DAY)
           (readings db)"
    by (simp add: window_readings_def)
qed (rule quality_rate_row_eq)

text \<open>C6, amended, at the sample store: device 3 has an area and no reading.\<close>
theorem C6_device_quality_rate_witness:
  "sample_device 3 (Some NORMAL) (Some 30) None (Some 1) \<in> set (devices sample_quality_db)
   \<and> window_readings sample_quality_db (10 * DAY - 90 * DAY)
        (sample_device 3 (Some NORMAL) (Some 30) None (Some 1)) = []
   \<and> \<lparr>qr_device_id = 3, qr_device_type = ''sensor'', qr_area_name = ''valley'',
       total_data_count = 0, qualified_count = 0, qualified_rate = 0\<rparr>
     \<in> set (get_device_data_quality_rate sample_quality_db (10 * DAY) 90)"
proof -
  have m: "sample_device 3 (Some NORMAL) (Some 30) None (Some 1) \<in> set (devices sample_quality_db)"
    by (simp add: sample_quality_db_def)
  have w: "window_readings sample_quality_db (10 * DAY - 90 * DAY)
        (sample_device 3 (Some NORMAL) (Some 30) None (Some 1)) = []"
    by (simp add: window_readings_def sample_quality_db_def sample_reading_def sample_device_def)
  have w': "window_readings sample_quality_db (- (80 * DAY))
        (sample_device 3 (Some NORMAL) (Some 30) None (Some 1)) = []"
    using w by simp
  have a: "db_get area_id (areas sample_quality_db) 1 = Some (sample_area 1 CORE_PROTECTION)"
    by (simp add: sample_quality_db_def db_get_def sample_area_def)
  have d: "deployment_area_id (sample_device 3 (Some NORMAL) (Some 30) None (Some 1)) = Some 1"
    "dev_id (sample_device 3 (Some NORMAL) (Some 30) None (Some 1)) = 3"
    "dev_type (sample_device 3 (Some NORMAL) (Some 30) None (Some 1)) = ''sensor''"
    "area_name (sample_area 1 CORE_PROTECTION) = ''valley''"
    by (simp_all add: sample_device_def sample_area_def)
  show ?thesis
    using m
      C6_device_quality_rate [where db = sample_quality_db and now = "10 * DAY" and days = 90
        and d = "sample_device 3 (Some NORMAL) (Some 30) None (Some 1)"
        and row = "\<lparr>qr_device_id = 3, qr_device_type = ''sensor'', qr_area_name = ''valley'',
                     total_data_count = 0, qualified_count = 0, qualified_rate = 0\<rparr>"]
    by (simp add: w w' a d) blast
qed

end
